theory Spec2Isabelle
  imports Complex_Main "HOL-Library.Word"
begin

section \<open>JavaScript values used by the worker\<close>

text \<open>
  The worker (\<^verbatim>\<open>src/src/index.ts\<close>, with its earlier variant \<^verbatim>\<open>src/unnamed/part_000\<close> and
  the helper \<^verbatim>\<open>getFctMintRate\<close> of \<^verbatim>\<open>src/unnamed/part_001\<close>) is one asynchronous request
  handler. Its values are JavaScript strings, numbers, bigints and byte arrays:
  \<^item> a \<^verbatim>\<open>Hex\<close> or \<^verbatim>\<open>Address\<close> is a string, modelled as \<^typ>\<open>string\<close>;
  \<^item> a \<^verbatim>\<open>bigint\<close> is an \<^typ>\<open>int\<close>;
  \<^item> a \<^verbatim>\<open>Uint8Array\<close> is a list of 8-bit words;
  \<^item> \<^verbatim>\<open>undefined\<close>/\<^verbatim>\<open>null\<close> is \<^term>\<open>None\<close>;
  \<^item> a thrown exception is the left summand of a sum type.
\<close>

type_synonym byte = "8 word"
type_synonym Hex = string
type_synonym Address = string

text \<open>
  Exceptions. \<^verbatim>\<open>Error msg\<close> is \<^verbatim>\<open>new Error(msg)\<close> as the worker itself throws it;
  \<^verbatim>\<open>ViemError name\<close> is an error class of the viem library, named by its class (or, for a
  bare \<^verbatim>\<open>BaseError\<close>, by its short message); \<^verbatim>\<open>SyntaxError\<close> is what \<^verbatim>\<open>BigInt(string)\<close>
  throws on an unparsable string, \<^verbatim>\<open>RangeError\<close> what \<^verbatim>\<open>BigInt(number)\<close> throws on a number that is
  no integer.
\<close>

datatype js_error = Error string | ViemError string | SyntaxError | RangeError

text \<open>
  A JavaScript number: a double. A finite double is kept as the real number it denotes
  (\<^verbatim>\<open>-0\<close> is not kept apart from \<^verbatim>\<open>0\<close>: nothing the worker does tells them apart);
  \<open>Infinity True\<close> is \<^verbatim>\<open>+Infinity\<close> and \<open>Infinity False\<close> is \<^verbatim>\<open>-Infinity\<close>.
\<close>

datatype js_number = NaN | Infinity bool | Num real

text \<open>What \<^verbatim>\<open>fromRlp(_, 'hex')\<close> returns and \<^verbatim>\<open>toRlp\<close> accepts: viem's \<^verbatim>\<open>RecursiveArray<Hex>\<close>.\<close>

datatype rlp = RHex Hex | RList "rlp list"

section \<open>The viem codec primitives the worker calls\<close>

text \<open>
  \<^verbatim>\<open>toHex\<close>, \<^verbatim>\<open>toBytes\<close>, \<^verbatim>\<open>concatHex\<close>, \<^verbatim>\<open>toRlp\<close> and \<^verbatim>\<open>fromRlp\<close> are imported from viem.
  They are pure functions; the definitions below follow the library's implementation
  (\<^verbatim>\<open>utils/encoding/{toHex,toBytes,toRlp,fromRlp}.ts\<close>, \<^verbatim>\<open>utils/cursor.ts\<close>).
\<close>

subsection \<open>Hex digits\<close>

definition hexDigit :: "nat \<Rightarrow> char" where
  "hexDigit n = ''0123456789abcdef'' ! (n mod 16)"

text \<open>\<^verbatim>\<open>charCodeToBase16\<close>: the value of a hex digit of either case, \<^verbatim>\<open>undefined\<close> otherwise.\<close>

definition charCodeToBase16 :: "char \<Rightarrow> nat option" where
  "charCodeToBase16 c =
     (let code = (of_char c :: nat) in
      if 48 \<le> code \<and> code \<le> 57 then Some (code - 48)
      else if 65 \<le> code \<and> code \<le> 70 then Some (code - 55)
      else if 97 \<le> code \<and> code \<le> 102 then Some (code - 87)
      else None)"

subsection \<open>bytesToHex and hexToBytes\<close>

text \<open>\<^verbatim>\<open>hexes[b]\<close>: \<^verbatim>\<open>b.toString(16).padStart(2, '0')\<close>.\<close>

definition hexes :: "byte \<Rightarrow> string" where
  "hexes b = [hexDigit (unat b div 16), hexDigit (unat b mod 16)]"

definition bytesToHex :: "byte list \<Rightarrow> Hex" where
  "bytesToHex bs = ''0x'' @ concat (map hexes bs)"

text \<open>
  The loop of \<^verbatim>\<open>hexToBytes\<close> over the (even-length) digit string: two digits per byte,
  \<^verbatim>\<open>Invalid byte sequence\<close> thrown on a character that is no hex digit.
\<close>

fun hexPairs :: "string \<Rightarrow> js_error + byte list" where
  "hexPairs [] = Inr []"
| "hexPairs [c] = Inl (ViemError ''Invalid byte sequence'')"
| "hexPairs (l # r # cs) =
     (case (charCodeToBase16 l, charCodeToBase16 r) of
        (Some nibbleLeft, Some nibbleRight) \<Rightarrow>
          (case hexPairs cs of
             Inl e \<Rightarrow> Inl e
           | Inr bs \<Rightarrow> Inr (of_nat (nibbleLeft * 16 + nibbleRight) # bs))
      | _ \<Rightarrow> Inl (ViemError ''Invalid byte sequence''))"

text \<open>
  \<^verbatim>\<open>hexToBytes(hex)\<close> (which \<^verbatim>\<open>toBytes\<close> calls on a string that is hex): drops the first two
  characters, pads an odd number of digits with a leading \<^verbatim>\<open>0\<close>.
\<close>

definition hexToBytes :: "Hex \<Rightarrow> js_error + byte list" where
  "hexToBytes hex =
     (let hexString = drop 2 hex;
          hexString = (if odd (length hexString) then CHR ''0'' # hexString else hexString)
      in hexPairs hexString)"

subsection \<open>numberToHex\<close>

text \<open>\<^verbatim>\<open>n.toString(16)\<close> of a non-negative integer: lower case, no leading zero, \<^verbatim>\<open>"0"\<close> for 0.\<close>

fun toString16 :: "nat \<Rightarrow> string" where
  "toString16 n = (if n < 16 then [hexDigit n] else toString16 (n div 16) @ [hexDigit (n mod 16)])"

declare toString16.simps [simp del]

text \<open>
  \<^verbatim>\<open>toHex(v)\<close> on a number or bigint is \<^verbatim>\<open>numberToHex(v)\<close> with no size: it throws
  \<^verbatim>\<open>IntegerOutOfRangeError\<close> on a negative value, and on a \<^verbatim>\<open>number\<close> above
  \<^verbatim>\<open>Number.MAX_SAFE_INTEGER\<close> (\<open>isNumber\<close> tells the two apart); the digits are not padded to a
  whole number of bytes.
\<close>

definition MAX_SAFE_INTEGER :: int where
  "MAX_SAFE_INTEGER = 2 ^ 53 - 1"

definition numberToHex :: "bool \<Rightarrow> int \<Rightarrow> js_error + Hex" where
  "numberToHex isNumber v =
     (if (isNumber \<and> v > MAX_SAFE_INTEGER) \<or> v < 0 then Inl (ViemError ''IntegerOutOfRangeError'')
      else Inr (''0x'' @ toString16 (nat v)))"

text \<open>\<^verbatim>\<open>concatHex(values)\<close>: \<^verbatim>\<open>`0x${values.reduce((acc, x) => acc + x.replace('0x', ''), '')}`\<close>;
  on the worker's arguments, which each start with \<^verbatim>\<open>0x\<close> and hold no other \<^verbatim>\<open>0x\<close> before
  it, the replacement drops the first two characters.\<close>

definition concatHex :: "Hex list \<Rightarrow> Hex" where
  "concatHex values = ''0x'' @ concat (map (drop 2) values)"

subsection \<open>toRlp\<close>

text \<open>\<^verbatim>\<open>getSizeOfLength\<close>: the number of bytes of a length, at most four.\<close>

definition getSizeOfLength :: "nat \<Rightarrow> js_error + nat" where
  "getSizeOfLength len =
     (if len < 2 ^ 8 then Inr 1
      else if len < 2 ^ 16 then Inr 2
      else if len < 2 ^ 24 then Inr 3
      else if len < 2 ^ 32 then Inr 4
      else Inl (ViemError ''Length is too large.''))"

text \<open>\<^verbatim>\<open>pushUint8/16/24/32\<close>: a length written big-endian on the given number of bytes.\<close>

fun pushUint :: "nat \<Rightarrow> nat \<Rightarrow> byte list" where
  "pushUint 0 v = []"
| "pushUint (Suc k) v = of_nat (v div 256 ^ k) # pushUint k v"

text \<open>
  The prefix that \<^verbatim>\<open>getEncodableBytes\<close> (\<open>offset = 0x80\<close>) and \<^verbatim>\<open>getEncodableList\<close>
  (\<open>offset = 0xc0\<close>) write before a body of \<open>len\<close> bytes.
\<close>

definition encodeLength :: "nat \<Rightarrow> nat \<Rightarrow> js_error + byte list" where
  "encodeLength offset len =
     (case getSizeOfLength len of
        Inl e \<Rightarrow> Inl e
      | Inr sizeOfLength \<Rightarrow>
          if len \<le> 55 then Inr [of_nat (offset + len)]
          else Inr (of_nat (offset + 55 + sizeOfLength) # pushUint sizeOfLength len))"

definition encodeBytes :: "byte list \<Rightarrow> js_error + byte list" where
  "encodeBytes bytes =
     (case encodeLength 0x80 (length bytes) of
        Inl e \<Rightarrow> Inl e
      | Inr prefix \<Rightarrow>
          if length bytes = 1 \<and> hd bytes < 0x80 then Inr bytes
          else Inr (prefix @ bytes))"

text \<open>Encoding a sequence of already encoded items in order, the first failure winning.\<close>

fun concatResults :: "(js_error + byte list) list \<Rightarrow> js_error + byte list" where
  "concatResults [] = Inr []"
| "concatResults (r # rs) =
     (case r of
        Inl e \<Rightarrow> Inl e
      | Inr bs \<Rightarrow> (case concatResults rs of Inl e \<Rightarrow> Inl e | Inr rest \<Rightarrow> Inr (bs @ rest)))"

text \<open>\<^verbatim>\<open>getEncodable(x)\<close> followed by \<^verbatim>\<open>encode\<close>: the RLP bytes of a value.\<close>

fun rlpEncode :: "rlp \<Rightarrow> js_error + byte list" where
  "rlpEncode (RHex hex) =
     (case hexToBytes hex of Inl e \<Rightarrow> Inl e | Inr bytes \<Rightarrow> encodeBytes bytes)"
| "rlpEncode (RList xs) =
     (case concatResults (map rlpEncode xs) of
        Inl e \<Rightarrow> Inl e
      | Inr body \<Rightarrow>
          (case encodeLength 0xc0 (length body) of
             Inl e \<Rightarrow> Inl e
           | Inr prefix \<Rightarrow> Inr (prefix @ body)))"

definition toRlp :: "rlp \<Rightarrow> js_error + Hex" where
  "toRlp x = (case rlpEncode x of Inl e \<Rightarrow> Inl e | Inr bytes \<Rightarrow> Inr (bytesToHex bytes))"

subsection \<open>fromRlp\<close>

text \<open>A big-endian unsigned integer, as \<^verbatim>\<open>readUint8/16/24/32\<close> read it off the cursor.\<close>

definition beNat :: "byte list \<Rightarrow> nat" where
  "beNat bs = foldl (\<lambda>acc b. acc * 256 + unat b) 0 bs"

text \<open>
  The cursor of \<^verbatim>\<open>utils/cursor.ts\<close> is a byte array with a position; the model passes the
  bytes from the position on. A read beyond the end throws \<^verbatim>\<open>PositionOutOfBoundsError\<close>.

  \<^verbatim>\<open>readLength(cursor, prefix, offset)\<close>: the length of a byte string (\<open>offset = 0x80\<close>) or of
  a list body (\<open>offset = 0xc0\<close>), read from the prefix or from the one to four bytes after it.
\<close>

definition readLength :: "byte list \<Rightarrow> nat \<Rightarrow> nat \<Rightarrow> js_error + (nat \<times> byte list)" where
  "readLength cur prefix offset =
     (if offset = 0x80 \<and> prefix < 0x80 then Inr (1, cur)
      else if prefix \<le> offset + 55 then Inr (prefix - offset, cur)
      else if prefix \<le> offset + 55 + 4 then
        (let k = prefix - (offset + 55) in
         if length cur < k then Inl (ViemError ''PositionOutOfBoundsError'')
         else Inr (beNat (take k cur), drop k cur))
      else Inl (ViemError ''Invalid RLP prefix''))"

lemma readLength_length:
  "readLength cur prefix offset = Inr (len, cur') \<Longrightarrow> length cur' \<le> length cur"
  by (auto simp: readLength_def Let_def split: if_splits)

text \<open>
  \<^verbatim>\<open>fromRlpCursor\<close> and \<^verbatim>\<open>readList\<close>. A prefix below \<^verbatim>\<open>0x80\<close> is its own one-byte string
  (the cursor steps back onto it); a prefix below \<^verbatim>\<open>0xc0\<close> starts a byte string, returned
  as hex; any other prefix starts a list, whose items are read while fewer than \<open>len\<close> bytes
  have been consumed (an item may run past the announced length: the library does not
  check). Every item consumes at least one byte, which is what makes the library's loop end;
  the comparison \<open>length cur' < length cur\<close> in \<open>readList\<close> states this for the termination
  proof, and \<open>fromRlpCursor_consumes\<close> and \<open>readList_loop\<close> below show that its other branch is
  never taken.
\<close>

function fromRlpCursor :: "byte list \<Rightarrow> js_error + (rlp \<times> byte list)"
  and readList :: "nat \<Rightarrow> byte list \<Rightarrow> js_error + (rlp list \<times> byte list)" where
  "fromRlpCursor [] = Inl (ViemError ''PositionOutOfBoundsError'')"
| "fromRlpCursor (p # rest) =
     (if unat p < 0xc0 then
        (case readLength (if unat p < 0x80 then p # rest else rest) (unat p) 0x80 of
           Inl e \<Rightarrow> Inl e
         | Inr (len, cur) \<Rightarrow>
             if length cur < len then Inl (ViemError ''PositionOutOfBoundsError'')
             else Inr (RHex (bytesToHex (take len cur)), drop len cur))
      else
        (case readLength rest (unat p) 0xc0 of
           Inl e \<Rightarrow> Inl e
         | Inr (len, cur) \<Rightarrow>
             (case readList len cur of
                Inl e \<Rightarrow> Inl e
              | Inr (xs, cur') \<Rightarrow> Inr (RList xs, cur'))))"
| "readList len cur =
     (if len = 0 then Inr ([], cur)
      else
        (case fromRlpCursor cur of
           Inl e \<Rightarrow> Inl e
         | Inr (x, cur') \<Rightarrow>
             if length cur' < length cur then
               (case readList (len - (length cur - length cur')) cur' of
                  Inl e \<Rightarrow> Inl e
                | Inr (xs, cur'') \<Rightarrow> Inr (x # xs, cur''))
             else Inl (ViemError ''unreachable'')))"
  by pat_completeness auto
termination
  by (relation "measure (\<lambda>a. case a of Inl bs \<Rightarrow> 2 * length bs | Inr (len, cur) \<Rightarrow> 2 * length cur + 1)")
     (auto dest: readLength_length)

declare readList.simps [simp del]

text \<open>
  \<^verbatim>\<open>fromRlp(value)\<close> on a hex string: a string of more than three characters and odd length
  is refused (\<^verbatim>\<open>InvalidHexValueError\<close>); no bytes at all decode to \<^verbatim>\<open>"0x"\<close>; otherwise the first
  item is decoded and whatever follows it is ignored.
\<close>

definition fromRlp :: "Hex \<Rightarrow> js_error + rlp" where
  "fromRlp v =
     (if length v > 3 \<and> odd (length v) then Inl (ViemError ''InvalidHexValueError'')
      else
        (case hexToBytes v of
           Inl e \<Rightarrow> Inl e
         | Inr bytes \<Rightarrow>
             if length bytes = 0 then Inr (RHex (bytesToHex bytes))
             else (case fromRlpCursor bytes of Inl e \<Rightarrow> Inl e | Inr (x, cur) \<Rightarrow> Inr x)))"

section \<open>JavaScript built-ins on decoded values\<close>

text \<open>
  An element of the decoded list is a hex string or, when the payload nests lists, an array.
  \<^verbatim>\<open>x.length\<close> is the number of characters of the string or of elements of the array.
\<close>

fun js_length :: "rlp \<Rightarrow> nat" where
  "js_length (RHex h) = length h"
| "js_length (RList xs) = length xs"

text \<open>\<^verbatim>\<open>Array.prototype.toString\<close>: the elements' strings joined by commas.\<close>

fun joinComma :: "string list \<Rightarrow> string" where
  "joinComma [] = []"
| "joinComma [s] = s"
| "joinComma (s # t # ss) = s @ '','' @ joinComma (t # ss)"

fun js_toString :: "rlp \<Rightarrow> string" where
  "js_toString (RHex h) = h"
| "js_toString (RList xs) = joinComma (map js_toString xs)"

text \<open>The value of a string of hex digits, \<^verbatim>\<open>None\<close> when a character is no hex digit.\<close>

fun parseHexDigits :: "nat \<Rightarrow> string \<Rightarrow> nat option" where
  "parseHexDigits acc [] = Some acc"
| "parseHexDigits acc (c # cs) =
     (case charCodeToBase16 c of
        None \<Rightarrow> None
      | Some d \<Rightarrow> parseHexDigits (acc * 16 + d) cs)"

text \<open>
  \<^verbatim>\<open>BigInt(s)\<close> on a string: the empty string is \<^verbatim>\<open>0n\<close>, \<^verbatim>\<open>0x\<close> followed by at least one hex
  digit is that number, anything else met here throws \<^verbatim>\<open>SyntaxError\<close>. (The strings that
  reach it are outputs of \<^verbatim>\<open>bytesToHex\<close> and comma-joins of them, so the decimal, octal,
  binary and white-space forms of the literal grammar cannot occur.)
\<close>

definition StringToBigInt :: "string \<Rightarrow> js_error + int" where
  "StringToBigInt s =
     (if s = [] then Inr 0
      else if (take 2 s = ''0x'' \<or> take 2 s = ''0X'') \<and> 2 < length s then
        (case parseHexDigits 0 (drop 2 s) of
           None \<Rightarrow> Inl SyntaxError
         | Some n \<Rightarrow> Inr (int n))
      else Inl SyntaxError)"

text \<open>\<^verbatim>\<open>BigInt(x)\<close> on a decoded element: a string is parsed, an array is first turned into its
  string.\<close>

definition js_BigInt :: "rlp \<Rightarrow> js_error + int" where
  "js_BigInt x = StringToBigInt (js_toString x)"

text \<open>
  \<^verbatim>\<open>x && x !== '0x' ? BigInt(x) : 0n\<close>, the rule for \<^verbatim>\<open>value\<close> and \<^verbatim>\<open>gasLimit\<close>: the empty
  string is falsy, every array is truthy and differs from \<^verbatim>\<open>'0x'\<close>.
\<close>

definition bigIntOrZero :: "rlp \<Rightarrow> js_error + int" where
  "bigIntOrZero x =
     (if x \<noteq> RHex [] \<and> x \<noteq> RHex ''0x'' then js_BigInt x else Inr 0)"

section \<open>Arithmetic on doubles\<close>

text \<open>
  Lines 58--64 of \<^verbatim>\<open>index.ts\<close> compute with JavaScript numbers: \<^verbatim>\<open>Number(bigint)\<close>, a
  subtraction, a division, \<^verbatim>\<open>Math.floor\<close>, and \<^verbatim>\<open>BigInt(number)\<close> back. Each operation gives the
  double nearest to the exact result, ties going to the even significand (IEEE 754
  binary64: 53 significant bits, exponents of the last bit from \<open>-1074\<close>, overflow to
  infinity from \<open>2^1024\<close>).
\<close>

text \<open>The number of binary digits of a natural number.\<close>

fun bitLength :: "nat \<Rightarrow> nat" where
  "bitLength n = (if n = 0 then 0 else Suc (bitLength (n div 2)))"

declare bitLength.simps [simp del]

text \<open>\<open>\<lfloor>log\<^sub>2 a\<rfloor>\<close> of a positive real, from the digits of \<open>\<lfloor>a\<rfloor>\<close> or of \<open>\<lceil>1 / a\<rceil> - 1\<close>.\<close>

definition binaryExponent :: "real \<Rightarrow> int" where
  "binaryExponent a =
     (if 1 \<le> a then int (bitLength (nat \<lfloor>a\<rfloor>)) - 1
      else - int (bitLength (nat \<lceil>1 / a\<rceil> - 1)))"

definition pow2 :: "int \<Rightarrow> real" where
  "pow2 e = (if 0 \<le> e then 2 ^ nat e else 1 / 2 ^ nat (- e))"

text \<open>The nearest integer, a tie going to the even one.\<close>

definition roundHalfEven :: "real \<Rightarrow> int" where
  "roundHalfEven m =
     (let f = \<lfloor>m\<rfloor>; r = m - of_int f in
      if r < 1 / 2 then f
      else if 1 / 2 < r then f + 1
      else if even f then f else f + 1)"

text \<open>
  The double nearest to a real: the real is scaled so that its 53 leading bits are the
  integer part (\<open>e\<close> is the exponent of the last of them, not below \<open>-1074\<close>), rounded to an
  integer and scaled back.
\<close>

definition roundToDouble :: "real \<Rightarrow> js_number" where
  "roundToDouble x =
     (if x = 0 then Num 0
      else
        (let a = \<bar>x\<bar>;
             e = max (binaryExponent a - 52) (- 1074);
             y = of_int (roundHalfEven (a / pow2 e)) * pow2 e
         in if 2 ^ 1024 \<le> y then Infinity (0 < x) else Num (sgn x * y)))"

text \<open>\<^verbatim>\<open>Number(k)\<close> on a bigint.\<close>

definition NumberOfBigInt :: "int \<Rightarrow> js_number" where
  "NumberOfBigInt k = roundToDouble (of_int k)"

text \<open>\<^verbatim>\<open>x - y\<close> and \<^verbatim>\<open>x / y\<close> on numbers.\<close>

fun jsMinus :: "js_number \<Rightarrow> js_number \<Rightarrow> js_number" where
  "jsMinus (Num x) (Num y) = roundToDouble (x - y)"
| "jsMinus (Num x) (Infinity p) = Infinity (\<not> p)"
| "jsMinus (Infinity p) (Num y) = Infinity p"
| "jsMinus (Infinity p) (Infinity q) = (if p = q then NaN else Infinity p)"
| "jsMinus NaN y = NaN"
| "jsMinus x NaN = NaN"

fun jsDivide :: "js_number \<Rightarrow> js_number \<Rightarrow> js_number" where
  "jsDivide (Num x) (Num y) =
     (if y = 0 then (if x = 0 then NaN else Infinity (0 < x)) else roundToDouble (x / y))"
| "jsDivide (Num x) (Infinity q) = Num 0"
| "jsDivide (Infinity p) (Num y) = Infinity (p = (0 \<le> y))"
| "jsDivide (Infinity p) (Infinity q) = NaN"
| "jsDivide NaN y = NaN"
| "jsDivide x NaN = NaN"

text \<open>\<^verbatim>\<open>Math.floor(x)\<close>.\<close>

fun MathFloor :: "js_number \<Rightarrow> js_number" where
  "MathFloor (Num x) = Num (of_int \<lfloor>x\<rfloor>)"
| "MathFloor x = x"

text \<open>\<^verbatim>\<open>BigInt(x)\<close> on a number: \<^verbatim>\<open>RangeError\<close> unless it is an integer.\<close>

fun BigIntOfNumber :: "js_number \<Rightarrow> js_error + int" where
  "BigIntOfNumber (Num x) = (if x = of_int \<lfloor>x\<rfloor> then Inr \<lfloor>x\<rfloor> else Inl RangeError)"
| "BigIntOfNumber x = Inl RangeError"

section \<open>Chain data and the collaborators of the worker\<close>

text \<open>The fields the worker reads of a viem transaction, block, log and receipt.\<close>

record transaction =
  tx_from :: Address
  tx_to :: "Address option"
  tx_input :: Hex
  tx_blockHash :: Hex

record block =
  blk_number :: int
  blk_timestamp :: int

record log =
  log_address :: Address
  log_topics :: "Hex list"
  log_data :: Hex

record receipt =
  rcpt_logs :: "log list"

datatype l1_network = mainnet | sepolia
datatype l2_network = facetMainnet | facetSepolia

text \<open>
  Modelled from the spec: the result of \<^verbatim>\<open>decodeFacetEncodedTransaction\<close>, whose file
  (\<^verbatim>\<open>./decodeFacetEncodedTransaction\<close>) is not among the sources. The worker assigns its
  \<^verbatim>\<open>to\<close>, \<^verbatim>\<open>value\<close>, \<^verbatim>\<open>data\<close> and \<^verbatim>\<open>gasLimit\<close> to variables of type \<^verbatim>\<open>Address | undefined\<close>,
  \<^verbatim>\<open>bigint | undefined\<close>, \<^verbatim>\<open>Hex | undefined\<close> and \<^verbatim>\<open>bigint | undefined\<close>; the data model of the
  specification gives \<^verbatim>\<open>mineBoost\<close> as an optional byte sequence.
\<close>

record decoded_transaction =
  dec_to :: "Address option"
  dec_value :: "int option"
  dec_data :: "Hex option"
  dec_gasLimit :: "int option"
  dec_mineBoost :: "byte list option"

text \<open>
  Everything the handler reaches outside its own file and the viem codecs: \<^verbatim>\<open>Number\<close> on a
  query string, the chain clients (one per network), the contract read behind
  \<^verbatim>\<open>getFctMintRate\<close>, the envelope decoder (the worker's own file in \<^verbatim>\<open>index.ts\<close>, the SDK's
  function of the same name in the earlier variant) and the functions and chain ids of
  \<^verbatim>\<open>@0xfacet/sdk\<close>. Each call that can throw returns a sum. \<open>l1_getTransaction\<close> may also
  return \<^verbatim>\<open>null\<close>, which the handler tests for.
\<close>

record env =
  js_Number :: "string \<Rightarrow> js_number"
  l1_getTransaction :: "l1_network \<Rightarrow> Hex \<Rightarrow> js_error + transaction option"
  l1_getBlock :: "l1_network \<Rightarrow> Hex \<Rightarrow> js_error + block"
  l1_getTransactionReceipt :: "l1_network \<Rightarrow> Hex \<Rightarrow> js_error + receipt"
  l2_getBlock :: "l2_network \<Rightarrow> js_error + block"
  l2_getTransaction :: "l2_network \<Rightarrow> Hex \<Rightarrow> js_error + unit option"
  l2_readContract :: "l2_network \<Rightarrow> Address \<Rightarrow> string \<Rightarrow> int option \<Rightarrow> js_error + int"
  l2_id :: "l2_network \<Rightarrow> int"
  decodeFacetEncodedTransaction :: "Hex \<Rightarrow> js_error + decoded_transaction"
  sdk_decodeFacetEncodedTransaction :: "Hex \<Rightarrow> js_error + decoded_transaction"
  applyL1ToL2Alias :: "Address \<Rightarrow> js_error + Address"
  calculateInputGasCost :: "byte list \<Rightarrow> js_error + int"
  computeFacetTransactionHash ::
    "Hex \<Rightarrow> Address \<Rightarrow> rlp \<Rightarrow> int \<Rightarrow> rlp \<Rightarrow> int \<Rightarrow> int option \<Rightarrow> js_error + Hex"

section \<open>The request handler of \<^verbatim>\<open>src/src/index.ts\<close>\<close>

definition FACET_INBOX_ADDRESS :: Address where
  "FACET_INBOX_ADDRESS = ''0x00000000000000000000000000000000000FacE7''"

definition FACET_EVENT_SIGNATURE :: Hex where
  "FACET_EVENT_SIGNATURE = ''0x00000000000000000000000000000000000000000000000000000000000face7''"

definition L2_BLOCK_TIME :: js_number where
  "L2_BLOCK_TIME = Num 12"

subsection \<open>Request and response\<close>

text \<open>The two query parameters, as \<^verbatim>\<open>url.searchParams.get\<close> returns them (\<^verbatim>\<open>null\<close> when absent).\<close>

record request =
  req_txHash :: "string option"
  req_chainId :: "string option"

text \<open>
  A response is a status and a JSON body, either \<^verbatim>\<open>{ error: message }\<close> or
  \<^verbatim>\<open>{ facetTransactionHash }\<close>. A response built without a status has status 200.
\<close>

datatype response_body = ErrorObject string | HashObject Hex

record response =
  status :: nat
  body :: response_body

text \<open>
  \<^verbatim>\<open>(error as Error).message\<close>. For an error of the worker it is the text it was built with;
  for a library error the model keeps the name it gave the error in place of the library's
  message text.
\<close>

fun message :: "js_error \<Rightarrow> string" where
  "message (Error m) = m"
| "message (ViemError name) = name"
| "message SyntaxError = ''SyntaxError''"
| "message RangeError = ''RangeError''"

text \<open>How a block of the \<^verbatim>\<open>try\<close> body ends: by throwing, by returning a response, or by
  falling through with the values of its variables.\<close>

datatype 'a outcome = Throw js_error | Return response | Next 'a

subsection \<open>Parameter validation (lines 16--26)\<close>

text \<open>\<^verbatim>\<open>Number(url.searchParams.get("chainId"))\<close>: \<^verbatim>\<open>Number(null)\<close> is 0.\<close>

definition l1ChainIdOf :: "env \<Rightarrow> request \<Rightarrow> js_number" where
  "l1ChainIdOf env request =
     (case req_chainId request of None \<Rightarrow> Num 0 | Some s \<Rightarrow> js_Number env s)"

text \<open>\<^verbatim>\<open>!n\<close> on a number: true of \<^verbatim>\<open>0\<close>, \<^verbatim>\<open>-0\<close> and \<^verbatim>\<open>NaN\<close>; \<^verbatim>\<open>!s\<close> on a string or null: true of
  \<^verbatim>\<open>null\<close> and of the empty string.\<close>

definition notNumber :: "js_number \<Rightarrow> bool" where
  "notNumber n \<longleftrightarrow> n = NaN \<or> n = Num 0"

definition notString :: "string option \<Rightarrow> bool" where
  "notString s \<longleftrightarrow> s = None \<or> s = Some []"

definition validate :: "env \<Rightarrow> request \<Rightarrow> (Hex \<times> js_number) outcome" where
  "validate env request =
     (let l1TransactionHash = req_txHash request;
          l1ChainId = l1ChainIdOf env request
      in
        if notString l1TransactionHash \<or> notNumber l1ChainId then
          Return \<lparr>status = 400, body = ErrorObject ''Missing txHash or chainId''\<rparr>
        else if l1ChainId \<noteq> Num 1 \<and> l1ChainId \<noteq> Num 11155111 then
          Return \<lparr>status = 400, body = ErrorObject ''Invalid chainId''\<rparr>
        else
          (case l1TransactionHash of
             None \<Rightarrow> Return \<lparr>status = 400, body = ErrorObject ''Missing txHash or chainId''\<rparr>
           | Some h \<Rightarrow> Next (h, l1ChainId)))"

text \<open>\<^verbatim>\<open>chain: l1ChainId === 1 ? mainnet : sepolia\<close> and its L2 counterpart (lines 29--38).\<close>

definition l1Chain :: "js_number \<Rightarrow> l1_network" where
  "l1Chain l1ChainId = (if l1ChainId = Num 1 then mainnet else sepolia)"

definition l2Chain :: "js_number \<Rightarrow> l2_network" where
  "l2Chain l1ChainId = (if l1ChainId = Num 1 then facetMainnet else facetSepolia)"

subsection \<open>The mint rate (lines 49--73 and \<^verbatim>\<open>getFctMintRate\<close>)\<close>

definition L2_L1_BLOCK_CONTRACT :: Address where
  "L2_L1_BLOCK_CONTRACT = ''0x4200000000000000000000000000000000000015''"

text \<open>
  \<^verbatim>\<open>getFctMintRate(l1ChainId, blockNumber)\<close> of \<^verbatim>\<open>src/unnamed/part_001\<close>: refuses any chain id
  but the two, then reads \<^verbatim>\<open>fctMintRate()\<close> of the L1-block contract at the block.
\<close>

definition getFctMintRate :: "env \<Rightarrow> js_number \<Rightarrow> int option \<Rightarrow> js_error + int" where
  "getFctMintRate env l1ChainId blockNumber =
     (if l1ChainId \<noteq> Num 1 \<and> l1ChainId \<noteq> Num 11155111 then Inl (Error ''Invalid chain id'')
      else l2_readContract env (l2Chain l1ChainId) L2_L1_BLOCK_CONTRACT ''fctMintRate'' blockNumber)"

text \<open>
  Lines 57--67. The two timestamps are converted with \<^verbatim>\<open>Number\<close>, subtracted and divided as
  doubles, the quotient is floored and converted back with \<^verbatim>\<open>BigInt\<close> (which throws on
  \<^verbatim>\<open>NaN\<close> and the infinities), and the result is subtracted, as a bigint, from the number of
  the L2 head block.
\<close>

definition targetL2BlockNumber :: "block \<Rightarrow> block \<Rightarrow> js_error + int" where
  "targetL2BlockNumber transactionBlock latestL2Block =
     (let latestL2BlockNumber = blk_number latestL2Block;
          latestL2Timestamp = NumberOfBigInt (blk_timestamp latestL2Block);
          timeDiffSeconds =
            jsMinus latestL2Timestamp (NumberOfBigInt (blk_timestamp transactionBlock));
          l2BlocksToGoBack = MathFloor (jsDivide timeDiffSeconds L2_BLOCK_TIME)
      in
        (case BigIntOfNumber l2BlocksToGoBack of
           Inl e \<Rightarrow> Inl e
         | Inr back \<Rightarrow> Inr (latestL2BlockNumber - back)))"

definition lookupMintRate :: "env \<Rightarrow> js_number \<Rightarrow> transaction \<Rightarrow> js_error + int" where
  "lookupMintRate env l1ChainId transaction =
     (case l1_getBlock env (l1Chain l1ChainId) (tx_blockHash transaction) of
        Inl e \<Rightarrow> Inl e
      | Inr transactionBlock \<Rightarrow>
          (case l2_getBlock env (l2Chain l1ChainId) of
             Inl e \<Rightarrow> Inl e
           | Inr latestL2Block \<Rightarrow>
               (case targetL2BlockNumber transactionBlock latestL2Block of
                  Inl e \<Rightarrow> Inl e
                | Inr targetBlock \<Rightarrow> getFctMintRate env l1ChainId (Some targetBlock))))"

subsection \<open>The classifier (line 83)\<close>

text \<open>\<^verbatim>\<open>String.prototype.toLowerCase\<close> on the ASCII strings that addresses are.\<close>

definition lowerChar :: "char \<Rightarrow> char" where
  "lowerChar c =
     (case map_of (zip ''ABCDEFGHIJKLMNOPQRSTUVWXYZ'' ''abcdefghijklmnopqrstuvwxyz'') c of
        None \<Rightarrow> c
      | Some l \<Rightarrow> l)"

definition toLowerCase :: "string \<Rightarrow> string" where
  "toLowerCase s = map lowerChar s"

text \<open>\<^verbatim>\<open>transaction.to?.toLowerCase() === FACET_INBOX_ADDRESS.toLowerCase()\<close>: with no
  recipient the left side is \<^verbatim>\<open>undefined\<close>, which equals no string.\<close>

definition isDirect :: "transaction \<Rightarrow> bool" where
  "isDirect transaction \<longleftrightarrow>
     map_option toLowerCase (tx_to transaction) = Some (toLowerCase FACET_INBOX_ADDRESS)"

subsection \<open>The variables the two paths assign\<close>

text \<open>
  \<^verbatim>\<open>fromAddress\<close>, \<^verbatim>\<open>to\<close>, \<^verbatim>\<open>value\<close>, \<^verbatim>\<open>data\<close> and \<^verbatim>\<open>gasLimit\<close> (lines 75--80). On the event path
  \<^verbatim>\<open>to\<close> and \<^verbatim>\<open>data\<close> hold elements of the decoded list, cast but not checked, so they have
  the type of such an element.
\<close>

record tx_fields =
  fromAddress :: Address
  to :: "rlp option"
  val :: "int option"
  dat :: "rlp option"
  gasLimit :: "int option"

record derived =
  txFields :: tx_fields
  fctMintAmount :: int

subsection \<open>The direct path (lines 85--105)\<close>

text \<open>\<^verbatim>\<open>toBytes(s)\<close> on a string: \<^verbatim>\<open>hexToBytes\<close> when \<^verbatim>\<open>isHex(s)\<close> (\<^verbatim>\<open>/^0x[0-9a-fA-F]*$/\<close>), the
  bytes of the text otherwise.\<close>

definition isHex :: "string \<Rightarrow> bool" where
  "isHex s \<longleftrightarrow> take 2 s = ''0x'' \<and> list_all (\<lambda>c. charCodeToBase16 c \<noteq> None) (drop 2 s)"

definition toBytes :: "string \<Rightarrow> js_error + byte list" where
  "toBytes s = (if isHex s then hexToBytes s else Inr (map of_char s))"

text \<open>\<^verbatim>\<open>x ?? d\<close>.\<close>

definition orElse :: "'a option \<Rightarrow> 'a \<Rightarrow> 'a" where
  "orElse x d = (case x of None \<Rightarrow> d | Some v \<Rightarrow> v)"

text \<open>\<^verbatim>\<open>v ? toHex(v) : "0x"\<close> on an optional bigint: \<^verbatim>\<open>undefined\<close> and \<^verbatim>\<open>0n\<close> are falsy.\<close>

definition hexOrEmpty :: "int option \<Rightarrow> js_error + Hex" where
  "hexOrEmpty v =
     (case v of
        None \<Rightarrow> Inr ''0x''
      | Some n \<Rightarrow> if n = 0 then Inr ''0x'' else numberToHex False n)"

text \<open>The array \<^verbatim>\<open>transactionData\<close> of lines 94--101, its elements evaluated in order.\<close>

definition transactionData :: "env \<Rightarrow> js_number \<Rightarrow> decoded_transaction \<Rightarrow> js_error + rlp list" where
  "transactionData env l1ChainId decodedTransaction =
     (case numberToHex True (l2_id env (l2Chain l1ChainId)) of
        Inl e \<Rightarrow> Inl e
      | Inr chainHex \<Rightarrow>
          (case hexOrEmpty (dec_value decodedTransaction) of
             Inl e \<Rightarrow> Inl e
           | Inr valueHex \<Rightarrow>
               (case hexOrEmpty (dec_gasLimit decodedTransaction) of
                  Inl e \<Rightarrow> Inl e
                | Inr gasLimitHex \<Rightarrow>
                    Inr [RHex chainHex,
                         RHex (orElse (dec_to decodedTransaction) ''0x''),
                         RHex valueHex,
                         RHex gasLimitHex,
                         RHex (orElse (dec_data decodedTransaction) ''0x''),
                         RHex (case dec_mineBoost decodedTransaction of
                                 None \<Rightarrow> ''0x'' | Some b \<Rightarrow> bytesToHex b)])))"

text \<open>\<^verbatim>\<open>concatHex([toHex(70), toRlp(transactionData)])\<close>, line 103.\<close>

definition encodedTransaction :: "rlp list \<Rightarrow> js_error + Hex" where
  "encodedTransaction data =
     (case numberToHex True 70 of
        Inl e \<Rightarrow> Inl e
      | Inr tag \<Rightarrow>
          (case toRlp (RList data) of
             Inl e \<Rightarrow> Inl e
           | Inr encoded \<Rightarrow> Inr (concatHex [tag, encoded])))"

definition directPath :: "env \<Rightarrow> js_number \<Rightarrow> int \<Rightarrow> transaction \<Rightarrow> js_error + derived" where
  "directPath env l1ChainId fctMintRate transaction =
     (case decodeFacetEncodedTransaction env (tx_input transaction) of
        Inl e \<Rightarrow> Inl e
      | Inr decodedTransaction \<Rightarrow>
          (case transactionData env l1ChainId decodedTransaction of
             Inl e \<Rightarrow> Inl e
           | Inr data \<Rightarrow>
               (case encodedTransaction data of
                  Inl e \<Rightarrow> Inl e
                | Inr encoded \<Rightarrow>
                    (case toBytes encoded of
                       Inl e \<Rightarrow> Inl e
                     | Inr bytes \<Rightarrow>
                         (case calculateInputGasCost env bytes of
                            Inl e \<Rightarrow> Inl e
                          | Inr inputCost \<Rightarrow>
                              Inr \<lparr>txFields =
                                     \<lparr>fromAddress = tx_from transaction,
                                      to = map_option RHex (dec_to decodedTransaction),
                                      val = dec_value decodedTransaction,
                                      dat = map_option RHex (dec_data decodedTransaction),
                                      gasLimit = dec_gasLimit decodedTransaction\<rparr>,
                                   fctMintAmount = inputCost * fctMintRate\<rparr>)))))"

subsection \<open>The event path (lines 109--161)\<close>

text \<open>\<^verbatim>\<open>receipt.logs.find(log => log.topics.length === 1 && log.topics[0] === FACET_EVENT_SIGNATURE)\<close>.\<close>

definition findFacetEvent :: "receipt \<Rightarrow> log option" where
  "findFacetEvent receipt =
     find (\<lambda>l. length (log_topics l) = 1 \<and> log_topics l ! 0 = FACET_EVENT_SIGNATURE)
       (rcpt_logs receipt)"

text \<open>Lines 126--157: the sender and the four fields read off the matched log.\<close>

definition eventFields :: "env \<Rightarrow> log \<Rightarrow> js_error + tx_fields" where
  "eventFields env facetEvent =
     (case applyL1ToL2Alias env (log_address facetEvent) of
        Inl e \<Rightarrow> Inl e
      | Inr aliased \<Rightarrow>
          (let payload = log_data facetEvent;
               rlpData = ''0x'' @ drop 4 payload
           in
             (case fromRlp rlpData of
                Inl e \<Rightarrow> Inl e
              | Inr (RHex h) \<Rightarrow> Inl (Error ''Invalid RLP data in Facet event'')
              | Inr (RList decoded) \<Rightarrow>
                  if length decoded < 6 then Inl (Error ''Invalid RLP data in Facet event'')
                  else
                    (let toAddressBytes = decoded ! 1 in
                     (case bigIntOrZero (decoded ! 2) of
                        Inl e \<Rightarrow> Inl e
                      | Inr value \<Rightarrow>
                          (case bigIntOrZero (decoded ! 3) of
                             Inl e \<Rightarrow> Inl e
                           | Inr gas \<Rightarrow>
                               Inr \<lparr>fromAddress = aliased,
                                    to = (if js_length toAddressBytes \<le> 2 then None
                                          else Some toAddressBytes),
                                    val = Some value,
                                    dat = Some (decoded ! 4),
                                    gasLimit = Some gas\<rparr>))))))"

definition eventPath :: "env \<Rightarrow> js_number \<Rightarrow> Hex \<Rightarrow> int \<Rightarrow> derived outcome" where
  "eventPath env l1ChainId l1TransactionHash fctMintRate =
     (case l1_getTransactionReceipt env (l1Chain l1ChainId) l1TransactionHash of
        Inl e \<Rightarrow> Throw e
      | Inr receipt \<Rightarrow>
          (case findFacetEvent receipt of
             None \<Rightarrow> Return \<lparr>status = 400, body = ErrorObject ''No Facet event found in transaction''\<rparr>
           | Some facetEvent \<Rightarrow>
               (case eventFields env facetEvent of
                  Inl e \<Rightarrow> Throw e
                | Inr fs \<Rightarrow>
                    (case toBytes (log_data facetEvent) of
                       Inl e \<Rightarrow> Throw e
                     | Inr bytes \<Rightarrow>
                         (let inputCost = int (length bytes) * 8 in
                          Next \<lparr>txFields = fs, fctMintAmount = inputCost * fctMintRate\<rparr>)))))"

subsection \<open>The handler\<close>

text \<open>The \<^verbatim>\<open>try\<close> body up to line 162: validation, the source transaction, the mint rate, and
  one of the two paths.\<close>

definition derive :: "env \<Rightarrow> request \<Rightarrow> (Hex \<times> derived) outcome" where
  "derive env request =
     (case validate env request of
        Throw e \<Rightarrow> Throw e
      | Return r \<Rightarrow> Return r
      | Next (l1TransactionHash, l1ChainId) \<Rightarrow>
          (case l1_getTransaction env (l1Chain l1ChainId) l1TransactionHash of
             Inl e \<Rightarrow> Throw e
           | Inr None \<Rightarrow> Return \<lparr>status = 404, body = ErrorObject ''Transaction not found''\<rparr>
           | Inr (Some transaction) \<Rightarrow>
               (case lookupMintRate env l1ChainId transaction of
                  Inl e \<Rightarrow> Throw e
                | Inr fctMintRate \<Rightarrow>
                    if isDirect transaction then
                      (case directPath env l1ChainId fctMintRate transaction of
                         Inl e \<Rightarrow> Throw e
                       | Inr d \<Rightarrow> Next (l1TransactionHash, d))
                    else
                      (case eventPath env l1ChainId l1TransactionHash fctMintRate of
                         Throw e \<Rightarrow> Throw e
                       | Return r \<Rightarrow> Return r
                       | Next d \<Rightarrow> Next (l1TransactionHash, d)))))"

text \<open>Lines 165--173: the call of \<^verbatim>\<open>computeFacetTransactionHash\<close> with its seven arguments.\<close>

definition hashOf :: "env \<Rightarrow> Hex \<Rightarrow> derived \<Rightarrow> js_error + Hex" where
  "hashOf env l1TransactionHash d =
     computeFacetTransactionHash env l1TransactionHash
       (fromAddress (txFields d))
       (orElse (to (txFields d)) (RHex ''0x''))
       (orElse (val (txFields d)) 0)
       (orElse (dat (txFields d)) (RHex ''0x''))
       (orElse (gasLimit (txFields d)) 0)
       (Some (fctMintAmount d))"

text \<open>The handler: the \<^verbatim>\<open>try\<close> body, and the \<^verbatim>\<open>catch\<close> that turns whatever was thrown into a
  response of status 500 (lines 180--182).\<close>

definition internalError :: "js_error \<Rightarrow> response" where
  "internalError e = \<lparr>status = 500, body = ErrorObject (message e)\<rparr>"

definition fetch :: "env \<Rightarrow> request \<Rightarrow> response" where
  "fetch env request =
     (case derive env request of
        Throw e \<Rightarrow> internalError e
      | Return r \<Rightarrow> r
      | Next (l1TransactionHash, d) \<Rightarrow>
          (case hashOf env l1TransactionHash d of
             Inl e \<Rightarrow> internalError e
           | Inr facetTransactionHash \<Rightarrow>
               \<lparr>status = 200, body = HashObject facetTransactionHash\<rparr>))"

section \<open>The earlier variant of the handler (\<^verbatim>\<open>src/unnamed/part_000\<close>)\<close>

text \<open>
  The earlier handler has the same validation and classifier, looks no mint rate up, passes
  six arguments to \<^verbatim>\<open>computeFacetTransactionHash\<close>, and then looks the computed hash up on L2.
  Its blocks are transcribed from its own lines.
\<close>

definition FACET_INBOX_ADDRESS0 :: Address where
  "FACET_INBOX_ADDRESS0 = ''0x00000000000000000000000000000000000FacE7''"

definition FACET_EVENT_SIGNATURE0 :: Hex where
  "FACET_EVENT_SIGNATURE0 = ''0x00000000000000000000000000000000000000000000000000000000000face7''"

text \<open>Lines 11--21.\<close>

definition validate0 :: "env \<Rightarrow> request \<Rightarrow> (Hex \<times> js_number) outcome" where
  "validate0 env request =
     (let l1TransactionHash = req_txHash request;
          l1ChainId = l1ChainIdOf env request
      in
        if notString l1TransactionHash \<or> notNumber l1ChainId then
          Return \<lparr>status = 400, body = ErrorObject ''Missing txHash or chainId''\<rparr>
        else if l1ChainId \<noteq> Num 1 \<and> l1ChainId \<noteq> Num 11155111 then
          Return \<lparr>status = 400, body = ErrorObject ''Invalid chainId''\<rparr>
        else
          (case l1TransactionHash of
             None \<Rightarrow> Return \<lparr>status = 400, body = ErrorObject ''Missing txHash or chainId''\<rparr>
           | Some h \<Rightarrow> Next (h, l1ChainId)))"

text \<open>Line 51.\<close>

definition isDirect0 :: "transaction \<Rightarrow> bool" where
  "isDirect0 transaction \<longleftrightarrow>
     map_option toLowerCase (tx_to transaction) = Some (toLowerCase FACET_INBOX_ADDRESS0)"

text \<open>Lines 53--58.\<close>

definition directPath0 :: "env \<Rightarrow> transaction \<Rightarrow> js_error + tx_fields" where
  "directPath0 env transaction =
     (case sdk_decodeFacetEncodedTransaction env (tx_input transaction) of
        Inl e \<Rightarrow> Inl e
      | Inr decodedTransaction \<Rightarrow>
          Inr \<lparr>fromAddress = tx_from transaction,
               to = map_option RHex (dec_to decodedTransaction),
               val = dec_value decodedTransaction,
               dat = map_option RHex (dec_data decodedTransaction),
               gasLimit = dec_gasLimit decodedTransaction\<rparr>)"

text \<open>Line 66.\<close>

definition findFacetEvent0 :: "receipt \<Rightarrow> log option" where
  "findFacetEvent0 receipt =
     find (\<lambda>l. length (log_topics l) = 1 \<and> log_topics l ! 0 = FACET_EVENT_SIGNATURE0)
       (rcpt_logs receipt)"

text \<open>Lines 73--101.\<close>

definition eventFields0 :: "env \<Rightarrow> log \<Rightarrow> js_error + tx_fields" where
  "eventFields0 env facetEvent =
     (case applyL1ToL2Alias env (log_address facetEvent) of
        Inl e \<Rightarrow> Inl e
      | Inr aliased \<Rightarrow>
          (let payload = log_data facetEvent;
               rlpData = ''0x'' @ drop 4 payload
           in
             (case fromRlp rlpData of
                Inl e \<Rightarrow> Inl e
              | Inr (RHex h) \<Rightarrow> Inl (Error ''Invalid RLP data in Facet event'')
              | Inr (RList decoded) \<Rightarrow>
                  if length decoded < 6 then Inl (Error ''Invalid RLP data in Facet event'')
                  else
                    (let toAddressBytes = decoded ! 1 in
                     (case bigIntOrZero (decoded ! 2) of
                        Inl e \<Rightarrow> Inl e
                      | Inr value \<Rightarrow>
                          (case bigIntOrZero (decoded ! 3) of
                             Inl e \<Rightarrow> Inl e
                           | Inr gas \<Rightarrow>
                               Inr \<lparr>fromAddress = aliased,
                                    to = (if js_length toAddressBytes \<le> 2 then None
                                          else Some toAddressBytes),
                                    val = Some value,
                                    dat = Some (decoded ! 4),
                                    gasLimit = Some gas\<rparr>))))))"

text \<open>Lines 61--102.\<close>

definition eventPath0 :: "env \<Rightarrow> js_number \<Rightarrow> Hex \<Rightarrow> tx_fields outcome" where
  "eventPath0 env l1ChainId l1TransactionHash =
     (case l1_getTransactionReceipt env (l1Chain l1ChainId) l1TransactionHash of
        Inl e \<Rightarrow> Throw e
      | Inr receipt \<Rightarrow>
          (case findFacetEvent0 receipt of
             None \<Rightarrow> Return \<lparr>status = 400, body = ErrorObject ''No Facet event found in transaction''\<rparr>
           | Some facetEvent \<Rightarrow>
               (case eventFields0 env facetEvent of
                  Inl e \<Rightarrow> Throw e
                | Inr fs \<Rightarrow> Next fs)))"

text \<open>The \<^verbatim>\<open>try\<close> body up to line 102.\<close>

definition derive0 :: "env \<Rightarrow> request \<Rightarrow> (Hex \<times> js_number \<times> tx_fields) outcome" where
  "derive0 env request =
     (case validate0 env request of
        Throw e \<Rightarrow> Throw e
      | Return r \<Rightarrow> Return r
      | Next (l1TransactionHash, l1ChainId) \<Rightarrow>
          (case l1_getTransaction env (l1Chain l1ChainId) l1TransactionHash of
             Inl e \<Rightarrow> Throw e
           | Inr None \<Rightarrow> Return \<lparr>status = 404, body = ErrorObject ''Transaction not found''\<rparr>
           | Inr (Some transaction) \<Rightarrow>
               if isDirect0 transaction then
                 (case directPath0 env transaction of
                    Inl e \<Rightarrow> Throw e
                  | Inr fs \<Rightarrow> Next (l1TransactionHash, l1ChainId, fs))
               else
                 (case eventPath0 env l1ChainId l1TransactionHash of
                    Throw e \<Rightarrow> Throw e
                  | Return r \<Rightarrow> Return r
                  | Next fs \<Rightarrow> Next (l1TransactionHash, l1ChainId, fs))))"

text \<open>Lines 105--112: six arguments, no mint amount.\<close>

definition hashOf0 :: "env \<Rightarrow> Hex \<Rightarrow> tx_fields \<Rightarrow> js_error + Hex" where
  "hashOf0 env l1TransactionHash fs =
     computeFacetTransactionHash env l1TransactionHash
       (fromAddress fs)
       (orElse (to fs) (RHex ''0x''))
       (orElse (val fs) 0)
       (orElse (dat fs) (RHex ''0x''))
       (orElse (gasLimit fs) 0)
       None"

text \<open>Lines 115--134: the computed hash is looked up on L2; a missing transaction and a
  failing lookup both answer 404.\<close>

definition fetch0 :: "env \<Rightarrow> request \<Rightarrow> response" where
  "fetch0 env request =
     (case derive0 env request of
        Throw e \<Rightarrow> internalError e
      | Return r \<Rightarrow> r
      | Next (l1TransactionHash, l1ChainId, fs) \<Rightarrow>
          (case hashOf0 env l1TransactionHash fs of
             Inl e \<Rightarrow> internalError e
           | Inr facetTransactionHash \<Rightarrow>
               (case l2_getTransaction env (l2Chain l1ChainId) facetTransactionHash of
                  Inl e \<Rightarrow> \<lparr>status = 404, body = ErrorObject ''Facet transaction not found''\<rparr>
                | Inr None \<Rightarrow> \<lparr>status = 404, body = ErrorObject ''Facet transaction not found''\<rparr>
                | Inr (Some u) \<Rightarrow>
                    \<lparr>status = 200, body = HashObject facetTransactionHash\<rparr>)))"

section \<open>A concrete environment\<close>

text \<open>
  The theorems below hold for every environment. To run the handler on concrete requests,
  this section fixes one: the SDK functions as the specification describes them, and a
  small chain with five source transactions.
\<close>

text \<open>\<^verbatim>\<open>Number(s)\<close> on a non-empty string of decimal digits; every other string is taken to
  \<^verbatim>\<open>NaN\<close> here.\<close>

fun decimalValue :: "nat \<Rightarrow> string \<Rightarrow> nat option" where
  "decimalValue acc [] = Some acc"
| "decimalValue acc (c # cs) =
     (let code = (of_char c :: nat) in
      if 48 \<le> code \<and> code \<le> 57 then decimalValue (acc * 10 + (code - 48)) cs else None)"

definition decimalNumber :: "string \<Rightarrow> js_number" where
  "decimalNumber s =
     (if s = [] then NaN
      else (case decimalValue 0 s of None \<Rightarrow> NaN | Some n \<Rightarrow> Num (real n)))"

text \<open>
  Modelled from the spec: \<^verbatim>\<open>applyL1ToL2Alias\<close> of \<^verbatim>\<open>@0xfacet/sdk\<close>, "add a fixed 160-bit
  offset, modulo \<open>2^160\<close>" (section 4.4), on the number an address denotes; the offset is
  the published constant of the L1-to-L2 address aliasing. The result is printed in lower case.
\<close>

definition ALIAS_OFFSET :: nat where
  "ALIAS_OFFSET = 0x1111000000000000000000000000000000001111"

definition aliasNat :: "nat \<Rightarrow> nat" where
  "aliasNat a = (a + ALIAS_OFFSET) mod 2 ^ 160"

definition padStart40 :: "string \<Rightarrow> string" where
  "padStart40 s = replicate (40 - length s) CHR ''0'' @ s"

definition aliasAddress :: "Address \<Rightarrow> js_error + Address" where
  "aliasAddress a =
     (case parseHexDigits 0 (drop 2 a) of
        None \<Rightarrow> Inl (Error ''Invalid address'')
      | Some n \<Rightarrow> Inr (''0x'' @ padStart40 (toString16 (aliasNat n))))"

text \<open>
  Modelled from the spec: \<^verbatim>\<open>calculateInputGasCost\<close> of \<^verbatim>\<open>@0xfacet/sdk\<close>, which "charges per
  zero/non-zero byte, analogous to intrinsic calldata costing" (section 4.2): 4 per zero
  byte and 16 per other byte.
\<close>

definition inputGasCost :: "byte list \<Rightarrow> js_error + int" where
  "inputGasCost bytes =
     Inr (4 * int (length (filter (\<lambda>b. b = 0) bytes))
          + 16 * int (length (filter (\<lambda>b. b \<noteq> 0) bytes)))"

text \<open>
  A stand-in for \<^verbatim>\<open>computeFacetTransactionHash\<close>: it serialises its seven arguments in
  order and does not hash them (the byte layout and the hash are the SDK's).
\<close>

definition serialiseArguments ::
  "Hex \<Rightarrow> Address \<Rightarrow> rlp \<Rightarrow> int \<Rightarrow> rlp \<Rightarrow> int \<Rightarrow> int option \<Rightarrow> js_error + Hex" where
  "serialiseArguments h sender recipient v d g mint =
     (case hexOrEmpty (Some v) of
        Inl e \<Rightarrow> Inl e
      | Inr vHex \<Rightarrow>
          (case hexOrEmpty (Some g) of
             Inl e \<Rightarrow> Inl e
           | Inr gHex \<Rightarrow>
               (case hexOrEmpty mint of
                  Inl e \<Rightarrow> Inl e
                | Inr mHex \<Rightarrow>
                    toRlp (RList [RHex h, RHex sender, recipient, RHex vHex, d, RHex gHex,
                                  RHex mHex]))))"

text \<open>
  Modelled from the spec: \<^verbatim>\<open>decodeFacetEncodedTransaction\<close>, whose file is not among the
  sources. Section 4.2 gives its contract (input bytes to \<^verbatim>\<open>(to, value, data, gasLimit,
  mineBoost)\<close>, failing with \<^verbatim>\<open>MalformedEnvelope\<close> "if the byte layout does not match") and the
  layout that re-encoding reproduces: the tag byte 70, then the RLP list
  \<^verbatim>\<open>[l2ChainId, to, value, gasLimit, data, mineBoost]\<close>; section 3 gives the empty-value
  rules (\<^verbatim>\<open>to\<close> absent iff empty, \<^verbatim>\<open>value\<close> and \<^verbatim>\<open>gasLimit\<close> zero when empty). The
  specification leaves the exact layout to an external document; what the model does with
  an input that is not the encoding of some fields (an integer with leading zero bytes,
  bytes after the list, another chain id) is its own choice, and nothing below is stated
  about such inputs.
\<close>

definition decodeEnvelope :: "Hex \<Rightarrow> js_error + decoded_transaction" where
  "decodeEnvelope input =
     (if take 4 input \<noteq> ''0x46'' then Inl (Error ''MalformedEnvelope'')
      else
        (case fromRlp (''0x'' @ drop 4 input) of
           Inr (RList [RHex chainId, RHex toHex, RHex valueHex, RHex gasLimitHex, RHex dataHex,
                       RHex mineBoostHex]) \<Rightarrow>
             (case (bigIntOrZero (RHex valueHex), bigIntOrZero (RHex gasLimitHex),
                    hexToBytes mineBoostHex) of
                (Inr v, Inr g, Inr boost) \<Rightarrow>
                  Inr \<lparr>dec_to = (if toHex = ''0x'' then None else Some toHex),
                       dec_value = Some v,
                       dec_data = Some dataHex,
                       dec_gasLimit = Some g,
                       dec_mineBoost = (if boost = [] then None else Some boost)\<rparr>
              | _ \<Rightarrow> Inl (Error ''MalformedEnvelope''))
         | _ \<Rightarrow> Inl (Error ''MalformedEnvelope'')))"

text \<open>The source transactions: a direct one, three that emit a Facet event, and a contract
  creation (no recipient) whose receipt holds no Facet event.\<close>

definition hashDirect :: Hex where
  "hashDirect = ''0x1111111111111111111111111111111111111111111111111111111111111111''"

definition hashEvent :: Hex where
  "hashEvent = ''0x2222222222222222222222222222222222222222222222222222222222222222''"

definition hashShortList :: Hex where
  "hashShortList = ''0x3333333333333333333333333333333333333333333333333333333333333333''"

definition hashOneByteTo :: Hex where
  "hashOneByteTo = ''0x4444444444444444444444444444444444444444444444444444444444444444''"

definition hashCreation :: Hex where
  "hashCreation = ''0x5555555555555555555555555555555555555555555555555555555555555555''"

definition senderEOA :: Address where
  "senderEOA = ''0xaAaAaAaaAaAaAaaAaAAAAAAAAaaaAaAaAaaAaaAa''"

definition emitter :: Address where
  "emitter = ''0xbbbbbbbbbbbbbbbbbbbbbbbbbbbbbbbbbbbbbbbb''"

definition l1BlockHash :: Hex where
  "l1BlockHash = ''0x9999999999999999999999999999999999999999999999999999999999999999''"

definition directTransaction :: transaction where
  "directTransaction =
     \<lparr>tx_from = senderEOA, tx_to = Some ''0x00000000000000000000000000000000000face7'',
      tx_input = ''0x46ce830face7808082520883abcdef80'', tx_blockHash = l1BlockHash\<rparr>"

definition eventTransaction :: transaction where
  "eventTransaction =
     \<lparr>tx_from = senderEOA, tx_to = Some emitter, tx_input = ''0x'', tx_blockHash = l1BlockHash\<rparr>"

definition creationTransaction :: transaction where
  "creationTransaction =
     \<lparr>tx_from = senderEOA, tx_to = None, tx_input = ''0x6080'', tx_blockHash = l1BlockHash\<rparr>"

definition exampleTransaction :: "Hex \<Rightarrow> transaction option" where
  "exampleTransaction h =
     (if h = hashDirect then Some directTransaction
      else if h = hashEvent \<or> h = hashShortList \<or> h = hashOneByteTo then Some eventTransaction
      else if h = hashCreation then Some creationTransaction
      else None)"

definition otherLog :: log where
  "otherLog =
     \<lparr>log_address = emitter,
      log_topics = [FACET_EVENT_SIGNATURE, FACET_EVENT_SIGNATURE],
      log_data = ''0x46c0''\<rparr>"

definition facetLog :: "Hex \<Rightarrow> log" where
  "facetLog payload =
     \<lparr>log_address = emitter, log_topics = [FACET_EVENT_SIGNATURE], log_data = payload\<rparr>"

definition exampleReceipt :: "Hex \<Rightarrow> receipt" where
  "exampleReceipt h =
     (if h = hashEvent then \<lparr>rcpt_logs = [otherLog, facetLog ''0x46cb80808082520883abcdef80'']\<rparr>
      else if h = hashShortList then \<lparr>rcpt_logs = [facetLog ''0x46c0'']\<rparr>
      else if h = hashOneByteTo then \<lparr>rcpt_logs = [facetLog ''0x46c6800580808080'']\<rparr>
      else \<lparr>rcpt_logs = [otherLog]\<rparr>)"

text \<open>The L1 block of all five is 120 seconds older than the L2 head, block 1000000; the
  mint rate is 1000 at block 999990 and 2000 elsewhere.\<close>

definition exampleEnv :: env where
  "exampleEnv =
     \<lparr>js_Number = decimalNumber,
      l1_getTransaction = (\<lambda>chain h. Inr (exampleTransaction h)),
      l1_getBlock = (\<lambda>chain h. Inr \<lparr>blk_number = 18000000, blk_timestamp = 1700000000\<rparr>),
      l1_getTransactionReceipt = (\<lambda>chain h. Inr (exampleReceipt h)),
      l2_getBlock = (\<lambda>chain. Inr \<lparr>blk_number = 1000000, blk_timestamp = 1700000120\<rparr>),
      l2_getTransaction = (\<lambda>chain h. Inr (Some ())),
      l2_readContract = (\<lambda>chain a f b. Inr (if b = Some 999990 then 1000 else 2000)),
      l2_id = (\<lambda>chain. case chain of facetMainnet \<Rightarrow> 0xface7 | facetSepolia \<Rightarrow> 0xface7a),
      decodeFacetEncodedTransaction = decodeEnvelope,
      sdk_decodeFacetEncodedTransaction = decodeEnvelope,
      applyL1ToL2Alias = aliasAddress,
      calculateInputGasCost = inputGasCost,
      computeFacetTransactionHash = serialiseArguments\<rparr>"

definition exampleRequest :: "Hex \<Rightarrow> request" where
  "exampleRequest h = \<lparr>req_txHash = Some h, req_chainId = Some ''1''\<rparr>"


section \<open>Notions of the specification\<close>

text \<open>
  Section 4.1 of the specification compares the recipient with the inbox address "case-
  insensitively": the two strings have the same length and agree character by character up
  to the case of letters. This is the specification's side of claim C6, to be compared with
  \<open>isDirect\<close>.
\<close>

definition equalIgnoringCase :: "string \<Rightarrow> string \<Rightarrow> bool" where
  "equalIgnoringCase a b \<longleftrightarrow> list_all2 (\<lambda>x y. lowerChar x = lowerChar y) a b"


section \<open>Facts about the codecs\<close>

lemma charCodeToBase16_hexDigit: "n < 16 \<Longrightarrow> charCodeToBase16 (hexDigit n) = Some n"
proof -
  assume "n < 16"
  have "list_all (\<lambda>n. charCodeToBase16 (hexDigit n) = Some n) [0..<16]"
    by code_simp
  with \<open>n < 16\<close> show ?thesis
    by (simp add: list_all_iff)
qed

lemma hexPairs_hexes: "hexPairs (concat (map hexes bs)) = Inr bs"
proof (induction bs)
  case Nil
  show ?case by simp
next
  case (Cons b bs)
  have "unat b < 2 ^ 8" using unsigned_less[of b] by simp
  then have "unat b div 16 < 16" by simp
  moreover have "unat b mod 16 < 16" by simp
  moreover have "(of_nat (unat b div 16 * 16 + unat b mod 16) :: byte) = b" by simp
  ultimately show ?case using Cons
    by (simp add: hexes_def charCodeToBase16_hexDigit)
qed

lemma length_hexes_concat: "length (concat (map hexes bs)) = 2 * length bs"
  by (induction bs) (simp_all add: hexes_def)

lemma length_bytesToHex: "length (bytesToHex bs) = 2 + 2 * length bs"
  by (simp add: bytesToHex_def length_hexes_concat)

text \<open>Reading back what \<^verbatim>\<open>bytesToHex\<close> printed gives the bytes.\<close>

lemma hexToBytes_bytesToHex: "hexToBytes (bytesToHex bs) = Inr bs"
  by (simp add: hexToBytes_def bytesToHex_def length_hexes_concat hexPairs_hexes)

subsection \<open>Doubles that are exact\<close>

lemma bitLength_le: "n < 2 ^ k \<Longrightarrow> bitLength n \<le> k"
proof (induction k arbitrary: n)
  case 0
  then show ?case by (simp add: bitLength.simps)
next
  case (Suc k)
  then have "n div 2 < 2 ^ k" by simp
  from Suc.IH [OF this] show ?case by (subst bitLength.simps) simp
qed

lemma binaryExponent_le:
  assumes "0 < a" and "a < 2 ^ Suc k"
  shows "binaryExponent a \<le> int k"
proof (cases "1 \<le> a")
  case True
  have "\<lfloor>a\<rfloor> < 2 ^ Suc k"
    using assms(2) by (simp add: floor_less_iff)
  then have "nat \<lfloor>a\<rfloor> < 2 ^ Suc k"
    using True by (simp add: nat_less_iff)
  from bitLength_le [OF this] True show ?thesis by (simp add: binaryExponent_def)
next
  case False
  then show ?thesis by (simp add: binaryExponent_def)
qed

lemma pow2_nonpos: "e \<le> 0 \<Longrightarrow> pow2 e = 1 / 2 ^ nat (- e)"
  by (cases "e = 0") (simp_all add: pow2_def)

lemma roundHalfEven_int: "roundHalfEven (of_int k) = k"
  by (simp add: roundHalfEven_def)

lemma roundHalfEven_error: "\<bar>of_int (roundHalfEven m) - m\<bar> \<le> 1 / 2"
proof -
  have "of_int \<lfloor>m\<rfloor> \<le> m" "m < of_int \<lfloor>m\<rfloor> + 1" by linarith+
  then show ?thesis
    by (auto simp: roundHalfEven_def Let_def)
qed

text \<open>An integer below \<open>2^53\<close> in magnitude is a double.\<close>

lemma roundToDouble_int:
  assumes "\<bar>k\<bar> < 2 ^ 53"
  shows "roundToDouble (of_int k) = Num (of_int k)"
proof (cases "k = 0")
  case True
  then show ?thesis by (simp add: roundToDouble_def)
next
  case False
  define a :: real where "a = \<bar>of_int k\<bar>"
  define e where "e = max (binaryExponent a - 52) (- 1074)"
  define n where "n = nat (- e)"
  have a: "a = of_int \<bar>k\<bar>" by (simp add: a_def)
  have apos: "0 < a" using False by (simp add: a_def)
  have a53: "a < 2 ^ 53"
    using assms unfolding a by (simp only: of_int_less_numeral_power_cancel_iff)
  have "a < 2 ^ Suc 52" using a53 by simp
  from binaryExponent_le [OF apos this] have e: "e \<le> 0" by (simp add: e_def)
  have p: "pow2 e = 1 / 2 ^ n" using pow2_nonpos [OF e] by (simp add: n_def)
  have "a / pow2 e = of_int (\<bar>k\<bar> * 2 ^ n)" by (simp add: p a)
  then have "roundHalfEven (a / pow2 e) = \<bar>k\<bar> * 2 ^ n" by (simp only: roundHalfEven_int)
  then have y: "of_int (roundHalfEven (a / pow2 e)) * pow2 e = a" by (simp add: p a)
  have "(2::real) ^ 53 < 2 ^ 1024" by simp
  with a53 have "a < 2 ^ 1024" by (rule less_trans)
  then have small: "\<not> 2 ^ 1024 \<le> a" by simp
  have "sgn (of_int k :: real) * a = of_int k" unfolding a_def by (rule sgn_mult_abs)
  then show ?thesis
    using False small y unfolding roundToDouble_def Let_def a_def [symmetric] e_def [symmetric]
    by simp
qed


text \<open>The quotient by 12 of an integer below \<open>2^53\<close> in magnitude rounds to a double with the
  same floor.\<close>

lemma roundToDouble_div12:
  assumes "\<bar>d\<bar> < 2 ^ 53"
  shows "\<exists>z. roundToDouble (of_int d / 12) = Num z \<and> \<lfloor>z\<rfloor> = d div 12"
proof (cases "d = 0")
  case True
  then show ?thesis by (simp add: roundToDouble_def)
next
  case False
  define x :: real where "x = of_int d / 12"
  define a :: real where "a = \<bar>x\<bar>"
  define e where "e = max (binaryExponent a - 52) (- 1074)"
  define n where "n = nat (- e)"
  define y where "y = of_int (roundHalfEven (a / pow2 e)) * pow2 e"
  define q where "q = d div 12"
  define r where "r = d mod 12"
  have xne: "x \<noteq> 0" using False by (simp add: x_def)
  have apos: "0 < a" using xne by (simp add: a_def)
  have d53: "\<bar>real_of_int d\<bar> < 2 ^ 53"
    using assms by (metis of_int_abs of_int_less_numeral_power_cancel_iff)
  have "a = \<bar>real_of_int d\<bar> / 12" by (simp add: a_def x_def)
  with d53 have a50: "a < 2 ^ Suc 49" by simp
  from binaryExponent_le [OF apos a50] have e3: "e \<le> - 3" by (simp add: e_def)
  then have n3: "3 \<le> n" by (simp add: n_def)
  have p: "pow2 e = 1 / 2 ^ n" using pow2_nonpos [of e] e3 by (simp add: n_def)
  have "(2::real) ^ 3 \<le> 2 ^ n" using n3 by (intro power_increasing) simp_all
  then have p8: "pow2 e \<le> 1 / 8" and ppos: "0 < pow2 e"
    by (simp_all add: p field_simps)
  have "\<bar>of_int (roundHalfEven (a / pow2 e)) - a / pow2 e\<bar> \<le> 1 / 2"
    by (rule roundHalfEven_error)
  then have "\<bar>of_int (roundHalfEven (a / pow2 e)) - a / pow2 e\<bar> * pow2 e \<le> 1 / 2 * pow2 e"
    using ppos by (intro mult_right_mono) simp_all
  moreover have "y - a = (of_int (roundHalfEven (a / pow2 e)) - a / pow2 e) * pow2 e"
    using ppos by (simp add: y_def field_simps)
  then have "\<bar>of_int (roundHalfEven (a / pow2 e)) - a / pow2 e\<bar> * pow2 e = \<bar>y - a\<bar>"
    using ppos by (simp only: abs_mult abs_of_pos)
  ultimately have err: "\<bar>y - a\<bar> \<le> 1 / 16" using p8 by simp
  have "a < 2 ^ 50" using a50 by simp
  with err have "y < 2 ^ 50 + 1" by linarith
  moreover have "(2::real) ^ 50 + 1 < 2 ^ 1024" by simp
  ultimately have "y < 2 ^ 1024" by (rule less_trans)
  then have small: "\<not> 2 ^ 1024 \<le> y" by simp
  define z where "z = sgn x * y"
  have rd: "roundToDouble x = Num z"
    using xne small
    unfolding roundToDouble_def Let_def a_def [symmetric] e_def [symmetric] y_def [symmetric] z_def
    by simp
  have "sgn x * a = x" unfolding a_def by (rule sgn_mult_abs)
  then have "z - x = sgn x * (y - a)" by (simp add: z_def algebra_simps)
  then have "\<bar>z - x\<bar> = \<bar>y - a\<bar>" using xne by (simp add: abs_mult abs_sgn_eq)
  with err have zerr: "\<bar>z - x\<bar> \<le> 1 / 16" by simp
  have dq: "d = 12 * q + r" and r0: "0 \<le> r" and r12: "r < 12"
    by (simp_all add: q_def r_def)
  have xq: "x = of_int q + of_int r / 12"
    unfolding x_def by (subst dq) (simp add: field_simps)
  have "\<lfloor>z\<rfloor> = q"
  proof (cases "r = 0")
    case True
    then have xi: "x = of_int q" using xq by simp
    then have "a = of_int \<bar>q\<bar>" by (simp add: a_def)
    then have "a / pow2 e = of_int (\<bar>q\<bar> * 2 ^ n)" by (simp add: p)
    then have "roundHalfEven (a / pow2 e) = \<bar>q\<bar> * 2 ^ n" by (simp only: roundHalfEven_int)
    then have "y = a" using \<open>a = of_int \<bar>q\<bar>\<close> by (simp add: y_def p)
    then have "z = x" using \<open>sgn x * a = x\<close> by (simp add: z_def)
    then show ?thesis by (simp add: xi)
  next
    case False
    with r0 r12 have "1 \<le> r" "r \<le> 11" by simp_all
    then have "1 \<le> real_of_int r" "real_of_int r \<le> 11" by simp_all
    with xq have "of_int q + 1 / 12 \<le> x" "x \<le> of_int q + 11 / 12" by simp_all
    with zerr have "of_int q \<le> z" "z < of_int q + 1" by linarith+
    then show ?thesis by (simp add: floor_unique)
  qed
  with rd show ?thesis by (simp add: x_def q_def)
qed

text \<open>For timestamps from 0 to below \<open>2^53\<close> the computation of lines 57--67 is exact.\<close>

lemma targetL2BlockNumber_exact:
  assumes "0 \<le> blk_timestamp transactionBlock" and "blk_timestamp transactionBlock < 2 ^ 53"
    and "0 \<le> blk_timestamp latestL2Block" and "blk_timestamp latestL2Block < 2 ^ 53"
  shows "targetL2BlockNumber transactionBlock latestL2Block =
           Inr (blk_number latestL2Block
                  - (blk_timestamp latestL2Block - blk_timestamp transactionBlock) div 12)"
proof -
  define t1 where "t1 = blk_timestamp transactionBlock"
  define t2 where "t2 = blk_timestamp latestL2Block"
  have n1: "NumberOfBigInt t1 = Num (of_int t1)"
    unfolding NumberOfBigInt_def using assms(1,2) by (intro roundToDouble_int) (simp add: t1_def)
  have n2: "NumberOfBigInt t2 = Num (of_int t2)"
    unfolding NumberOfBigInt_def using assms(3,4) by (intro roundToDouble_int) (simp add: t2_def)
  have d: "\<bar>t2 - t1\<bar> < 2 ^ 53" using assms by (simp add: t1_def t2_def abs_less_iff)
  have m: "jsMinus (Num (of_int t2)) (Num (of_int t1)) = Num (of_int (t2 - t1))"
    using roundToDouble_int [OF d] by simp
  from roundToDouble_div12 [OF d] obtain z where
    z: "roundToDouble (of_int (t2 - t1) / 12) = Num z" "\<lfloor>z\<rfloor> = (t2 - t1) div 12" by blast
  have "MathFloor (jsDivide (Num (of_int (t2 - t1))) L2_BLOCK_TIME) = Num (of_int ((t2 - t1) div 12))"
    using z by (simp add: L2_BLOCK_TIME_def)
  then show ?thesis
    unfolding targetL2BlockNumber_def Let_def t1_def [symmetric] t2_def [symmetric] n1 n2 m
    by simp
qed

lemmas double_defs =
  NumberOfBigInt_def roundToDouble_def binaryExponent_def pow2_def roundHalfEven_def Let_def
  bitLength.simps[of "numeral _"] bitLength.simps[of 0] bitLength.simps[of "Suc 0"] bitLength.simps[of 1]

subsection \<open>Hex strings and bytes\<close>

lemma hexes_digits: "list_all (\<lambda>c. charCodeToBase16 c \<noteq> None) (hexes b)"
proof -
  have "unat b < 2 ^ 8" using unsigned_less[of b] by simp
  then have "unat b div 16 < 16" by simp
  moreover have "unat b mod 16 < 16" by simp
  ultimately show ?thesis
    by (simp add: hexes_def charCodeToBase16_hexDigit del: not_None_eq)
qed

lemma isHex_bytesToHex: "isHex (bytesToHex bs)"
proof -
  have "list_all (\<lambda>c. charCodeToBase16 c \<noteq> None) (concat (map hexes bs))"
    by (induction bs) (simp_all add: hexes_digits del: not_None_eq)
  then show ?thesis by (simp add: isHex_def bytesToHex_def del: not_None_eq)
qed

lemma toBytes_bytesToHex: "toBytes (bytesToHex bs) = Inr bs"
  by (simp add: toBytes_def isHex_bytesToHex hexToBytes_bytesToHex)

lemma concatHex_tag: "concatHex [''0x46'', bytesToHex payload] = bytesToHex (70 # payload)"
  by (simp add: concatHex_def bytesToHex_def hexes_def hexDigit_def)

lemma numberToHex_70: "numberToHex True 70 = Inr ''0x46''"
  by (simp add: numberToHex_def MAX_SAFE_INTEGER_def toString16.simps[of "numeral _"] hexDigit_def)

text \<open>The bytes whose cost the direct path charges: the tag, then the RLP of the list.\<close>

lemma encodedTransaction_bytes:
  assumes "encodedTransaction data = Inr encoded"
  shows "\<exists>payload. rlpEncode (RList data) = Inr payload \<and> toBytes encoded = Inr (70 # payload)"
proof -
  from assms obtain payload where p: "rlpEncode (RList data) = Inr payload"
    and e: "encoded = concatHex [''0x46'', bytesToHex payload]"
    by (auto simp: encodedTransaction_def numberToHex_70 toRlp_def split: sum.splits)
  show ?thesis using p e by (simp add: concatHex_tag toBytes_bytesToHex)
qed

lemma hexPairs_total:
  "even (length s) \<Longrightarrow> list_all (\<lambda>c. charCodeToBase16 c \<noteq> None) s \<Longrightarrow> \<exists>bs. hexPairs s = Inr bs"
proof (induction s rule: hexPairs.induct)
  case 1
  show ?case by simp
next
  case (2 c)
  then show ?case by simp
next
  case (3 l r cs)
  then show ?case by (auto split: sum.splits)
qed

lemma toBytes_total: "\<exists>bs. toBytes s = Inr bs"
proof (cases "isHex s")
  case False
  then show ?thesis by (simp add: toBytes_def)
next
  case True
  then have d: "list_all (\<lambda>c. charCodeToBase16 c \<noteq> None) (drop 2 s)"
    by (simp add: isHex_def)
  have z: "charCodeToBase16 CHR ''0'' \<noteq> None" by (simp add: charCodeToBase16_def)
  show ?thesis
  proof (cases "odd (length (drop 2 s))")
    case True
    with d z have "\<exists>bs. hexPairs (CHR ''0'' # drop 2 s) = Inr bs"
      by (intro hexPairs_total) simp_all
    with True \<open>isHex s\<close> show ?thesis by (simp add: toBytes_def hexToBytes_def)
  next
    case False
    with d have "\<exists>bs. hexPairs (drop 2 s) = Inr bs"
      by (intro hexPairs_total) simp_all
    with False \<open>isHex s\<close> show ?thesis by (simp add: toBytes_def hexToBytes_def)
  qed
qed


subsection \<open>The decoder consumes what it reads\<close>

text \<open>
  Every item that \<open>fromRlpCursor\<close> returns has consumed at least one byte, so the comparison
  in \<open>readList\<close> always holds and \<open>readList\<close> is the loop of the library as it is written.
\<close>

lemma fromRlpCursor_readList_consume:
  "(\<forall>x r. fromRlpCursor bs = Inr (x, r) \<longrightarrow> length r < length bs)"
  "(\<forall>xs r. readList n cur = Inr (xs, r) \<longrightarrow> length r \<le> length cur)"
proof (induction bs and n cur rule: fromRlpCursor_readList.induct)
  case 1
  show ?case by simp
next
  case (2 p rest)
  show ?case
  proof (intro allI impI)
    fix x r
    assume a: "fromRlpCursor (p # rest) = Inr (x, r)"
    show "length r < length (p # rest)"
    proof (cases "unat p < 0xc0")
      case True
      with a obtain len cur' where rl: "readLength (if unat p < 0x80 then p # rest else rest) (unat p) 0x80 = Inr (len, cur')"
        and le: "\<not> length cur' < len" and r: "r = drop len cur'"
        by (auto split: sum.splits if_splits)
      show ?thesis
      proof (cases "unat p < 0x80")
        case True
        with rl have "len = 1" "cur' = p # rest" by (auto simp: readLength_def)
        with r show ?thesis by simp
      next
        case False
        with rl have "length cur' \<le> length rest" by (auto dest: readLength_length)
        with r show ?thesis by simp
      qed
    next
      case False
      with a obtain len cur' xs where rl: "readLength rest (unat p) 0xc0 = Inr (len, cur')"
        and l: "readList len cur' = Inr (xs, r)"
        by (auto split: sum.splits)
      from "2.IH" [OF False rl refl] l have "length r \<le> length cur'" by blast
      moreover from rl have "length cur' \<le> length rest" by (rule readLength_length)
      ultimately show ?thesis by simp
    qed
  qed
next
  case (3 len cur)
  show ?case
  proof (intro allI impI)
    fix xs r
    assume a: "readList len cur = Inr (xs, r)"
    show "length r \<le> length cur"
    proof (cases "len = 0")
      case True
      with a show ?thesis by (simp add: readList.simps)
    next
      case False
      with a obtain x cur' xs' where f: "fromRlpCursor cur = Inr (x, cur')"
        and lt: "length cur' < length cur"
        and l: "readList (len - (length cur - length cur')) cur' = Inr (xs', r)"
        by (subst (asm) readList.simps) (auto split: sum.splits if_splits)
      from "3.IH"(2) [OF False f refl lt] l have "length r \<le> length cur'" by blast
      with lt show ?thesis by simp
    qed
  qed
qed

lemma fromRlpCursor_consumes: "fromRlpCursor bs = Inr (x, r) \<Longrightarrow> length r < length bs"
  using fromRlpCursor_readList_consume(1) by blast

lemma readList_loop:
  "readList len cur =
     (if len = 0 then Inr ([], cur)
      else
        (case fromRlpCursor cur of
           Inl e \<Rightarrow> Inl e
         | Inr (x, cur') \<Rightarrow>
             (case readList (len - (length cur - length cur')) cur' of
                Inl e \<Rightarrow> Inl e
              | Inr (xs, cur'') \<Rightarrow> Inr (x # xs, cur''))))"
  by (subst readList.simps) (auto split: sum.splits dest: fromRlpCursor_consumes)

subsection \<open>Decoding what was encoded\<close>

























lemma bytesToHex_empty_iff: "bytesToHex bs = ''0x'' \<longleftrightarrow> bs = []"
  by (cases bs) (simp_all add: bytesToHex_def hexes_def)



section \<open>Facts about the two handlers\<close>

lemma validate0_eq: "validate0 env request = validate env request"
  by (simp add: validate0_def validate_def)

lemma isDirect0_eq: "isDirect0 transaction = isDirect transaction"
  by (simp add: isDirect0_def isDirect_def FACET_INBOX_ADDRESS0_def FACET_INBOX_ADDRESS_def)

text \<open>The definitions that running a handler on a concrete request unfolds.\<close>

lemmas example_defs =
  exampleEnv_def exampleRequest_def exampleTransaction_def exampleReceipt_def
  hashDirect_def hashEvent_def hashShortList_def hashOneByteTo_def hashCreation_def
  senderEOA_def emitter_def l1BlockHash_def otherLog_def facetLog_def
  directTransaction_def eventTransaction_def creationTransaction_def
  decimalNumber_def aliasAddress_def aliasNat_def ALIAS_OFFSET_def padStart40_def
  inputGasCost_def serialiseArguments_def decodeEnvelope_def

lemmas codec_defs =
  fromRlp_def hexToBytes_def charCodeToBase16_def readLength_def readList.simps bytesToHex_def
  hexes_def hexDigit_def beNat_def bigIntOrZero_def js_BigInt_def StringToBigInt_def
  toRlp_def encodeBytes_def encodeLength_def getSizeOfLength_def numberToHex_def
  MAX_SAFE_INTEGER_def concatHex_def toBytes_def isHex_def
  toString16.simps[of "numeral _"] toString16.simps[of 0] toString16.simps[of "Suc 0"]

lemmas handler_defs =
  fetch_def derive_def validate_def l1ChainIdOf_def notNumber_def notString_def l1Chain_def
  l2Chain_def lookupMintRate_def getFctMintRate_def targetL2BlockNumber_exact
  isDirect_def toLowerCase_def lowerChar_def FACET_INBOX_ADDRESS_def FACET_EVENT_SIGNATURE_def
  eventPath_def eventFields_def findFacetEvent_def directPath_def transactionData_def
  encodedTransaction_def hexOrEmpty_def hashOf_def orElse_def internalError_def Let_def

lemmas handler0_defs =
  fetch0_def derive0_def validate0_def isDirect0_def FACET_INBOX_ADDRESS0_def
  FACET_EVENT_SIGNATURE0_def eventPath0_def eventFields0_def findFacetEvent0_def directPath0_def
  hashOf0_def

lemma derive_found:
  assumes "validate env request = Next (h, c)"
    and "l1_getTransaction env (l1Chain c) h = Inr (Some transaction)"
    and "lookupMintRate env c transaction = Inr rate"
  shows "derive env request =
           (if isDirect transaction then
              (case directPath env c rate transaction of
                 Inl e \<Rightarrow> Throw e | Inr d \<Rightarrow> Next (h, d))
            else
              (case eventPath env c h rate of
                 Throw e \<Rightarrow> Throw e | Return r \<Rightarrow> Return r | Next d \<Rightarrow> Next (h, d)))"
  using assms by (simp add: derive_def)

lemma derive0_found:
  assumes "validate env request = Next (h, c)"
    and "l1_getTransaction env (l1Chain c) h = Inr (Some transaction)"
  shows "derive0 env request =
           (if isDirect transaction then
              (case directPath0 env transaction of
                 Inl e \<Rightarrow> Throw e | Inr fs \<Rightarrow> Next (h, c, fs))
            else
              (case eventPath0 env c h of
                 Throw e \<Rightarrow> Throw e | Return r \<Rightarrow> Return r | Next fs \<Rightarrow> Next (h, c, fs)))"
  using assms by (simp add: derive0_def validate0_eq isDirect0_eq)

lemma findFacetEvent0_eq: "findFacetEvent0 receipt = findFacetEvent receipt"
  by (simp add: findFacetEvent0_def findFacetEvent_def FACET_EVENT_SIGNATURE0_def
      FACET_EVENT_SIGNATURE_def)

lemma eventFields0_eq: "eventFields0 env facetEvent = eventFields env facetEvent"
  by (simp add: eventFields0_def eventFields_def)

lemma eventPath0_eq: "eventPath0 env c h = map_outcome txFields (eventPath env c h rate)"
proof (cases "l1_getTransactionReceipt env (l1Chain c) h")
  case (Inl e)
  then show ?thesis by (simp add: eventPath0_def eventPath_def)
next
  case (Inr receipt)
  show ?thesis
  proof (cases "findFacetEvent receipt")
    case None
    with Inr show ?thesis by (simp add: eventPath0_def eventPath_def findFacetEvent0_eq)
  next
    case (Some facetEvent)
    obtain bs where bs: "toBytes (log_data facetEvent) = Inr bs"
      using toBytes_total by blast
    show ?thesis
      using Inr Some bs
      by (simp add: eventPath0_def eventPath_def findFacetEvent0_eq eventFields0_eq
          split: sum.splits)
  qed
qed


lemma toLowerCase_eq_iff: "toLowerCase a = toLowerCase b \<longleftrightarrow> equalIgnoringCase a b"
  unfolding toLowerCase_def equalIgnoringCase_def
  by (induction a arbitrary: b) (auto simp: list_all2_Cons1)

lemma isDirect_iff:
  "isDirect transaction \<longleftrightarrow>
     (case tx_to transaction of None \<Rightarrow> False | Some r \<Rightarrow> equalIgnoringCase r FACET_INBOX_ADDRESS)"
  by (simp add: isDirect_def toLowerCase_eq_iff split: option.splits)


section \<open>The handlers on the concrete environment, and what each path yields\<close>

lemma validate_example: "validate exampleEnv (exampleRequest h) = (if h = [] then Return \<lparr>status = 400, body = ErrorObject ''Missing txHash or chainId''\<rparr> else Next (h, Num 1))"
  by (simp add: example_defs validate_def l1ChainIdOf_def notNumber_def notString_def)

lemma lookup_example: "lookupMintRate exampleEnv (Num 1) t = Inr 1000"
  by (simp add: example_defs handler_defs)

lemma getTransaction_example:
  "l1_getTransaction exampleEnv (l1Chain (Num 1)) h = Inr (exampleTransaction h)"
  by (simp add: exampleEnv_def)

lemma hash_examples:
  "hashDirect \<noteq> [] \<and> hashEvent \<noteq> [] \<and> hashShortList \<noteq> [] \<and> hashOneByteTo \<noteq> []
   \<and> hashCreation \<noteq> []"
  by (simp add: example_defs)

lemma exampleTransaction_values:
  "exampleTransaction hashDirect = Some directTransaction
   \<and> exampleTransaction hashEvent = Some eventTransaction
   \<and> exampleTransaction hashShortList = Some eventTransaction
   \<and> exampleTransaction hashOneByteTo = Some eventTransaction
   \<and> exampleTransaction hashCreation = Some creationTransaction"
  by (simp add: exampleTransaction_def hashDirect_def hashEvent_def hashShortList_def
      hashOneByteTo_def hashCreation_def)

lemma isDirect_examples: "isDirect directTransaction \<and> \<not> isDirect eventTransaction"
  by (simp add: directTransaction_def eventTransaction_def emitter_def isDirect_def
      toLowerCase_def lowerChar_def FACET_INBOX_ADDRESS_def)

lemma derive_direct_example:
  "derive exampleEnv (exampleRequest hashDirect) =
     Next (hashDirect,
       \<lparr>txFields = \<lparr>fromAddress = senderEOA, to = None, val = Some 0,
                    dat = Some (RHex ''0xabcdef''), gasLimit = Some 21000\<rparr>,
        fctMintAmount = 256000\<rparr>)"
  by (simp add: example_defs handler_defs codec_defs)

lemma derive_event_example:
  "derive exampleEnv (exampleRequest hashEvent) =
     Next (hashEvent,
       \<lparr>txFields = \<lparr>fromAddress = ''0xccccbbbbbbbbbbbbbbbbbbbbbbbbbbbbbbbbcccc'', to = None,
                    val = Some 0, dat = Some (RHex ''0xabcdef''), gasLimit = Some 21000\<rparr>,
        fctMintAmount = 104000\<rparr>)"
  by (simp add: example_defs handler_defs codec_defs)

lemma directPath_sender:
  "directPath env c rate transaction = Inr d \<Longrightarrow> fromAddress (txFields d) = tx_from transaction"
  by (auto simp: directPath_def split: sum.splits)

lemma eventPath_sender:
  assumes "eventPath env c h rate = Next d"
  shows "\<exists>receipt facetEvent.
           l1_getTransactionReceipt env (l1Chain c) h = Inr receipt
           \<and> findFacetEvent receipt = Some facetEvent
           \<and> applyL1ToL2Alias env (log_address facetEvent) = Inr (fromAddress (txFields d))"
  using assms
  by (auto simp: eventPath_def eventFields_def Let_def
      split: sum.splits option.splits rlp.splits if_splits)

lemma directPath_mint:
  assumes "directPath env c rate transaction = Inr d"
  shows "\<exists>dec chainHex valueHex gasLimitHex payload inputCost.
           decodeFacetEncodedTransaction env (tx_input transaction) = Inr dec
           \<and> numberToHex True (l2_id env (l2Chain c)) = Inr chainHex
           \<and> hexOrEmpty (dec_value dec) = Inr valueHex
           \<and> hexOrEmpty (dec_gasLimit dec) = Inr gasLimitHex
           \<and> rlpEncode (RList [RHex chainHex, RHex (orElse (dec_to dec) ''0x''), RHex valueHex,
                                 RHex gasLimitHex, RHex (orElse (dec_data dec) ''0x''),
                                 RHex (case dec_mineBoost dec of
                                         None \<Rightarrow> ''0x'' | Some b \<Rightarrow> bytesToHex b)]) = Inr payload
           \<and> calculateInputGasCost env (70 # payload) = Inr inputCost
           \<and> fctMintAmount d = inputCost * rate"
proof -
  from assms obtain dec data encoded bytes inputCost where
    dec: "decodeFacetEncodedTransaction env (tx_input transaction) = Inr dec"
    and data: "transactionData env c dec = Inr data"
    and enc: "encodedTransaction data = Inr encoded"
    and bytes: "toBytes encoded = Inr bytes"
    and cost: "calculateInputGasCost env bytes = Inr inputCost"
    and mint: "fctMintAmount d = inputCost * rate"
    by (auto simp: directPath_def split: sum.splits)
  from encodedTransaction_bytes [OF enc] bytes obtain payload where
    p: "rlpEncode (RList data) = Inr payload" and b: "bytes = 70 # payload"
    by auto
  from data obtain chainHex valueHex gasLimitHex where
    ch: "numberToHex True (l2_id env (l2Chain c)) = Inr chainHex"
    and vh: "hexOrEmpty (dec_value dec) = Inr valueHex"
    and gh: "hexOrEmpty (dec_gasLimit dec) = Inr gasLimitHex"
    and d: "data = [RHex chainHex, RHex (orElse (dec_to dec) ''0x''), RHex valueHex,
                    RHex gasLimitHex, RHex (orElse (dec_data dec) ''0x''),
                    RHex (case dec_mineBoost dec of None \<Rightarrow> ''0x'' | Some b \<Rightarrow> bytesToHex b)]"
    by (auto simp: transactionData_def split: sum.splits)
  show ?thesis
    using dec ch vh gh p cost mint unfolding b d by blast
qed

lemma eventPath_mint:
  assumes "eventPath env c h rate = Next d"
  shows "\<exists>receipt facetEvent bytes.
           l1_getTransactionReceipt env (l1Chain c) h = Inr receipt
           \<and> findFacetEvent receipt = Some facetEvent
           \<and> toBytes (log_data facetEvent) = Inr bytes
           \<and> fctMintAmount d = (8 * int (length bytes)) * rate"
  using assms
  by (auto simp: eventPath_def Let_def split: sum.splits option.splits)

lemma eventFields_invalid:
  assumes "applyL1ToL2Alias env (log_address facetEvent) = Inr a"
    and "fromRlp (''0x'' @ drop 4 (log_data facetEvent)) = Inr x"
    and "case x of RHex s \<Rightarrow> True | RList xs \<Rightarrow> length xs < 6"
  shows "eventFields env facetEvent = Inl (Error ''Invalid RLP data in Facet event'')"
  using assms by (auto simp: eventFields_def split: rlp.splits)

lemma eventFields_throws:
  assumes "fromRlp (''0x'' @ drop 4 (log_data facetEvent)) = Inr x"
    and "case x of RHex s \<Rightarrow> True | RList xs \<Rightarrow> length xs < 6"
  shows "\<exists>e. eventFields env facetEvent = Inl e"
  using assms by (auto simp: eventFields_def split: rlp.splits sum.splits)

section \<open>The claims\<close>

text \<open>
  Claim C1, as amended. On the event path, when the payload of the matched log, with its
  first byte stripped, RLP-decodes to something that is not a list, or to a list of fewer
  than six elements, the derivation fails and the response has status 500 (not 400): the
  handler throws \<^verbatim>\<open>Error("Invalid RLP data in Facet event")\<close> and its only \<^verbatim>\<open>catch\<close> answers
  every thrown error with status 500 and the error's message. (The aliasing of the log's
  address comes first; when it succeeds the body is that message.)
\<close>

theorem invalid_rlp_payload_status:
  assumes "validate env request = Next (h, c)"
    and "l1_getTransaction env (l1Chain c) h = Inr (Some transaction)"
    and "lookupMintRate env c transaction = Inr rate"
    and "\<not> isDirect transaction"
    and "l1_getTransactionReceipt env (l1Chain c) h = Inr receipt"
    and "findFacetEvent receipt = Some facetEvent"
    and "fromRlp (''0x'' @ drop 4 (log_data facetEvent)) = Inr x"
    and "case x of RHex s \<Rightarrow> True | RList xs \<Rightarrow> length xs < 6"
  shows "status (fetch env request) = 500
         \<and> (\<forall>a. applyL1ToL2Alias env (log_address facetEvent) = Inr a \<longrightarrow>
               fetch env request =
                 \<lparr>status = 500, body = ErrorObject ''Invalid RLP data in Facet event''\<rparr>)"
proof -
  note found = derive_found [OF assms(1-3)]
  from eventFields_throws [OF assms(7,8)] obtain e where e: "eventFields env facetEvent = Inl e"
    by blast
  have "derive env request = Throw e"
    using found assms(4-6) e by (simp add: eventPath_def)
  then have s: "status (fetch env request) = 500"
    by (simp add: fetch_def internalError_def)
  have "fetch env request = \<lparr>status = 500, body = ErrorObject ''Invalid RLP data in Facet event''\<rparr>"
    if "applyL1ToL2Alias env (log_address facetEvent) = Inr a" for a
    using found assms(4-6) eventFields_invalid [OF that assms(7,8)]
    by (simp add: eventPath_def fetch_def internalError_def)
  with s show ?thesis by blast
qed

theorem invalid_rlp_payload_status_witness:
  "validate exampleEnv (exampleRequest hashShortList) = Next (hashShortList, Num 1)
   \<and> l1_getTransaction exampleEnv (l1Chain (Num 1)) hashShortList = Inr (Some eventTransaction)
   \<and> lookupMintRate exampleEnv (Num 1) eventTransaction = Inr 1000
   \<and> \<not> isDirect eventTransaction
   \<and> l1_getTransactionReceipt exampleEnv (l1Chain (Num 1)) hashShortList
       = Inr (exampleReceipt hashShortList)
   \<and> findFacetEvent (exampleReceipt hashShortList) = Some (facetLog ''0x46c0'')
   \<and> fromRlp (''0x'' @ drop 4 (log_data (facetLog ''0x46c0''))) = Inr (RList [])
   \<and> length ([] :: rlp list) < 6
   \<and> applyL1ToL2Alias exampleEnv (log_address (facetLog ''0x46c0''))
       = Inr ''0xccccbbbbbbbbbbbbbbbbbbbbbbbbbbbbbbbbcccc''
   \<and> fetch exampleEnv (exampleRequest hashShortList)
       = \<lparr>status = 500, body = ErrorObject ''Invalid RLP data in Facet event''\<rparr>"
proof -
  have v: "validate exampleEnv (exampleRequest hashShortList) = Next (hashShortList, Num 1)"
    using hash_examples by (simp add: validate_example)
  have g: "l1_getTransaction exampleEnv (l1Chain (Num 1)) hashShortList = Inr (Some eventTransaction)"
    by (simp add: getTransaction_example exampleTransaction_values)
  have n: "\<not> isDirect eventTransaction" using isDirect_examples by simp
  have r: "l1_getTransactionReceipt exampleEnv (l1Chain (Num 1)) hashShortList
             = Inr (exampleReceipt hashShortList)"
    by (simp add: exampleEnv_def)
  have f: "findFacetEvent (exampleReceipt hashShortList) = Some (facetLog ''0x46c0'')"
    by (simp add: example_defs findFacetEvent_def FACET_EVENT_SIGNATURE_def)
  have x: "fromRlp (''0x'' @ drop 4 (log_data (facetLog ''0x46c0''))) = Inr (RList [])"
    by (simp add: facetLog_def codec_defs)
  have s: "case RList [] of RHex s \<Rightarrow> True | RList xs \<Rightarrow> length xs < 6" by simp
  have al: "applyL1ToL2Alias exampleEnv (log_address (facetLog ''0x46c0''))
              = Inr ''0xccccbbbbbbbbbbbbbbbbbbbbbbbbbbbbbbbbcccc''"
    by (simp add: example_defs codec_defs)
  show ?thesis
    using invalid_rlp_payload_status [OF v g lookup_example n r f x s] v g lookup_example n r f x al
    by simp
qed

theorem invalid_rlp_payload_status_counterexample:
  "findFacetEvent (exampleReceipt hashShortList) = Some (facetLog ''0x46c0'')
   \<and> fromRlp (''0x'' @ drop 4 (log_data (facetLog ''0x46c0''))) = Inr (RList [])
   \<and> fetch exampleEnv (exampleRequest hashShortList)
       = \<lparr>status = 500, body = ErrorObject ''Invalid RLP data in Facet event''\<rparr>
   \<and> status (fetch exampleEnv (exampleRequest hashShortList)) \<noteq> 400"
  by (simp add: example_defs handler_defs codec_defs)

text \<open>
  Claim C2. For every derivation that succeeds, \<^verbatim>\<open>fctMintAmount\<close> is the input cost times the
  mint rate. On the direct path the input cost is \<^verbatim>\<open>calculateInputGasCost\<close> of the byte 70
  followed by the RLP encoding of the list \<^verbatim>\<open>[l2ChainId, to or empty, value or empty, gasLimit
  or empty, data or empty, mineBoost or empty]\<close>; on the event path it is 8 times the number
  of bytes of the whole log data. The two are separate computations.
\<close>

theorem mint_amount:
  assumes "validate env request = Next (h, c)"
    and "l1_getTransaction env (l1Chain c) h = Inr (Some transaction)"
    and "lookupMintRate env c transaction = Inr rate"
    and "derive env request = Next (h', d)"
  shows "if isDirect transaction then
           (\<exists>dec chainHex valueHex gasLimitHex payload inputCost.
              decodeFacetEncodedTransaction env (tx_input transaction) = Inr dec
              \<and> numberToHex True (l2_id env (l2Chain c)) = Inr chainHex
              \<and> hexOrEmpty (dec_value dec) = Inr valueHex
              \<and> hexOrEmpty (dec_gasLimit dec) = Inr gasLimitHex
              \<and> rlpEncode (RList [RHex chainHex, RHex (orElse (dec_to dec) ''0x''),
                                    RHex valueHex, RHex gasLimitHex,
                                    RHex (orElse (dec_data dec) ''0x''),
                                    RHex (case dec_mineBoost dec of
                                            None \<Rightarrow> ''0x'' | Some b \<Rightarrow> bytesToHex b)])
                  = Inr payload
              \<and> calculateInputGasCost env (70 # payload) = Inr inputCost
              \<and> fctMintAmount d = inputCost * rate)
         else
           (\<exists>receipt facetEvent bytes.
              l1_getTransactionReceipt env (l1Chain c) h = Inr receipt
              \<and> findFacetEvent receipt = Some facetEvent
              \<and> toBytes (log_data facetEvent) = Inr bytes
              \<and> fctMintAmount d = (8 * int (length bytes)) * rate)"
proof (cases "isDirect transaction")
  case True
  with derive_found [OF assms(1-3)] assms(4) have "directPath env c rate transaction = Inr d"
    by (auto split: sum.splits)
  from directPath_mint [OF this] True show ?thesis by simp
next
  case False
  with derive_found [OF assms(1-3)] assms(4) have "eventPath env c h rate = Next d"
    by (auto split: outcome.splits)
  from eventPath_mint [OF this] False show ?thesis by simp
qed

theorem mint_amount_witness:
  "validate exampleEnv (exampleRequest hashDirect) = Next (hashDirect, Num 1)
   \<and> l1_getTransaction exampleEnv (l1Chain (Num 1)) hashDirect = Inr (Some directTransaction)
   \<and> lookupMintRate exampleEnv (Num 1) directTransaction = Inr 1000
   \<and> isDirect directTransaction
   \<and> (\<exists>d payload. derive exampleEnv (exampleRequest hashDirect) = Next (hashDirect, d)
           \<and> rlpEncode (RList [RHex ''0xface7'', RHex ''0x'', RHex ''0x'', RHex ''0x5208'',
                                 RHex ''0xabcdef'', RHex ''0x'']) = Inr payload
           \<and> calculateInputGasCost exampleEnv (70 # payload) = Inr 256
           \<and> fctMintAmount d = 256 * 1000)
   \<and> validate exampleEnv (exampleRequest hashEvent) = Next (hashEvent, Num 1)
   \<and> l1_getTransaction exampleEnv (l1Chain (Num 1)) hashEvent = Inr (Some eventTransaction)
   \<and> lookupMintRate exampleEnv (Num 1) eventTransaction = Inr 1000
   \<and> \<not> isDirect eventTransaction
   \<and> (\<exists>d bytes. derive exampleEnv (exampleRequest hashEvent) = Next (hashEvent, d)
           \<and> toBytes ''0x46cb80808082520883abcdef80'' = Inr bytes
           \<and> length bytes = 13
           \<and> fctMintAmount d = (8 * 13) * 1000)"
proof -
  have v1: "validate exampleEnv (exampleRequest hashDirect) = Next (hashDirect, Num 1)"
    using hash_examples by (simp add: validate_example)
  have g1: "l1_getTransaction exampleEnv (l1Chain (Num 1)) hashDirect = Inr (Some directTransaction)"
    by (simp add: getTransaction_example exampleTransaction_values)
  have v2: "validate exampleEnv (exampleRequest hashEvent) = Next (hashEvent, Num 1)"
    using hash_examples by (simp add: validate_example)
  have g2: "l1_getTransaction exampleEnv (l1Chain (Num 1)) hashEvent = Inr (Some eventTransaction)"
    by (simp add: getTransaction_example exampleTransaction_values)
  have p: "rlpEncode (RList [RHex ''0xface7'', RHex ''0x'', RHex ''0x'', RHex ''0x5208'',
                             RHex ''0xabcdef'', RHex ''0x''])
             = Inr [206, 131, 15, 172, 231, 128, 128, 130, 82, 8, 131, 171, 205, 239, 128]"
    by (simp add: codec_defs)
  have c: "calculateInputGasCost exampleEnv
             (70 # [206, 131, 15, 172, 231, 128, 128, 130, 82, 8, 131, 171, 205, 239, 128]) = Inr 256"
    by (simp add: exampleEnv_def inputGasCost_def)
  have b: "toBytes ''0x46cb80808082520883abcdef80''
             = Inr [70, 203, 128, 128, 128, 130, 82, 8, 131, 171, 205, 239, 128]"
    by (simp add: codec_defs)
  show ?thesis
    using mint_amount [OF v1 g1 lookup_example derive_direct_example]
      mint_amount [OF v2 g2 lookup_example derive_event_example]
      v1 g1 v2 g2 lookup_example isDirect_examples derive_direct_example derive_event_example
      p c b
    by simp
qed

text \<open>
  Claim C3, as amended. On the event path, when element 1 of the decoded list is a byte
  string, \<^verbatim>\<open>to\<close> is absent exactly when that string is empty (its hex text \<^verbatim>\<open>0x\<close> has length 2);
  a string of one byte or more is kept as \<^verbatim>\<open>to\<close> unchanged, whatever its length. Both variants
  of the handler read the same fields.
\<close>

theorem event_to_field:
  assumes "eventFields env facetEvent = Inr fs"
    and "fromRlp (''0x'' @ drop 4 (log_data facetEvent)) = Inr (RList decoded)"
    and "decoded ! 1 = RHex (bytesToHex bs)"
  shows "to fs = (if bs = [] then None else Some (RHex (bytesToHex bs)))
         \<and> eventFields0 env facetEvent = Inr fs"
  using assms
  by (auto simp: eventFields0_eq eventFields_def length_bytesToHex Let_def
      split: sum.splits if_splits)

theorem event_to_field_witness:
  "eventFields exampleEnv (facetLog ''0x46c6800580808080'')
       = Inr \<lparr>fromAddress = ''0xccccbbbbbbbbbbbbbbbbbbbbbbbbbbbbbbbbcccc'',
              to = Some (RHex ''0x05''), val = Some 0, dat = Some (RHex ''0x''),
              gasLimit = Some 0\<rparr>
   \<and> fromRlp (''0x'' @ drop 4 (log_data (facetLog ''0x46c6800580808080'')))
       = Inr (RList [RHex ''0x'', RHex ''0x05'', RHex ''0x'', RHex ''0x'', RHex ''0x'', RHex ''0x''])
   \<and> RHex ''0x05'' = RHex (bytesToHex [5])
   \<and> eventFields exampleEnv (facetLog ''0x46cb80808082520883abcdef80'')
       = Inr \<lparr>fromAddress = ''0xccccbbbbbbbbbbbbbbbbbbbbbbbbbbbbbbbbcccc'',
              to = None, val = Some 0, dat = Some (RHex ''0xabcdef''),
              gasLimit = Some 21000\<rparr>
   \<and> fromRlp (''0x'' @ drop 4 (log_data (facetLog ''0x46cb80808082520883abcdef80'')))
       = Inr (RList [RHex ''0x'', RHex ''0x'', RHex ''0x'', RHex ''0x5208'', RHex ''0xabcdef'',
                     RHex ''0x''])
   \<and> RHex ''0x'' = RHex (bytesToHex [])"
proof -
  have e1: "eventFields exampleEnv (facetLog ''0x46c6800580808080'')
       = Inr \<lparr>fromAddress = ''0xccccbbbbbbbbbbbbbbbbbbbbbbbbbbbbbbbbcccc'',
              to = Some (RHex ''0x05''), val = Some 0, dat = Some (RHex ''0x''),
              gasLimit = Some 0\<rparr>"
    by (simp add: example_defs handler_defs codec_defs)
  have r1: "fromRlp (''0x'' @ drop 4 (log_data (facetLog ''0x46c6800580808080'')))
       = Inr (RList [RHex ''0x'', RHex ''0x05'', RHex ''0x'', RHex ''0x'', RHex ''0x'', RHex ''0x''])"
    by (simp add: facetLog_def codec_defs)
  have b1: "[RHex ''0x'', RHex ''0x05'', RHex ''0x'', RHex ''0x'', RHex ''0x'', RHex ''0x''] ! 1
              = RHex (bytesToHex [5])"
    by (simp add: codec_defs)
  have e2: "eventFields exampleEnv (facetLog ''0x46cb80808082520883abcdef80'')
       = Inr \<lparr>fromAddress = ''0xccccbbbbbbbbbbbbbbbbbbbbbbbbbbbbbbbbcccc'',
              to = None, val = Some 0, dat = Some (RHex ''0xabcdef''),
              gasLimit = Some 21000\<rparr>"
    by (simp add: example_defs handler_defs codec_defs)
  have r2: "fromRlp (''0x'' @ drop 4 (log_data (facetLog ''0x46cb80808082520883abcdef80'')))
       = Inr (RList [RHex ''0x'', RHex ''0x'', RHex ''0x'', RHex ''0x5208'', RHex ''0xabcdef'',
                     RHex ''0x''])"
    by (simp add: facetLog_def codec_defs)
  have b2: "[RHex ''0x'', RHex ''0x'', RHex ''0x'', RHex ''0x5208'', RHex ''0xabcdef'',
             RHex ''0x''] ! 1 = RHex (bytesToHex [])"
    by (simp add: codec_defs)
  show ?thesis
    using event_to_field [OF e1 r1 b1] event_to_field [OF e2 r2 b2] e1 r1 e2 r2
    by (simp add: codec_defs)
qed

theorem event_to_field_counterexample:
  "fromRlp (''0x'' @ drop 4 (log_data (facetLog ''0x46c6800580808080'')))
     = Inr (RList [RHex ''0x'', RHex ''0x05'', RHex ''0x'', RHex ''0x'', RHex ''0x'', RHex ''0x''])
   \<and> hexToBytes ''0x05'' = Inr [5]
   \<and> length ([5] :: byte list) \<le> 1
   \<and> eventFields exampleEnv (facetLog ''0x46c6800580808080'')
       = Inr \<lparr>fromAddress = ''0xccccbbbbbbbbbbbbbbbbbbbbbbbbbbbbbbbbcccc'',
              to = Some (RHex ''0x05''), val = Some 0, dat = Some (RHex ''0x''),
              gasLimit = Some 0\<rparr>"
  by (simp add: example_defs handler_defs codec_defs)

text \<open>
  Claim C4, as amended. With the L1 block of the source transaction and the L2 head block at
  hand, and both timestamps from 0 to below \<open>2^53\<close>, the mint rate is read at block
  \<open>N_tip - (T_tip - T_l1) div 12\<close> (\<open>div\<close> rounds down); when the two timestamps are equal
  this is \<open>N_tip\<close>. (From \<open>2^53\<close> on \<^verbatim>\<open>Number\<close> rounds a timestamp, and the block can differ.)
\<close>

theorem mint_rate_block:
  assumes "l1_getBlock env (l1Chain c) (tx_blockHash transaction) = Inr transactionBlock"
    and "l2_getBlock env (l2Chain c) = Inr latestL2Block"
    and "0 \<le> blk_timestamp transactionBlock" and "blk_timestamp transactionBlock < 2 ^ 53"
    and "0 \<le> blk_timestamp latestL2Block" and "blk_timestamp latestL2Block < 2 ^ 53"
  shows "targetL2BlockNumber transactionBlock latestL2Block =
           Inr (blk_number latestL2Block
                  - (blk_timestamp latestL2Block - blk_timestamp transactionBlock) div 12)
         \<and> lookupMintRate env c transaction =
             getFctMintRate env c
               (Some (blk_number latestL2Block
                        - (blk_timestamp latestL2Block - blk_timestamp transactionBlock) div 12))
         \<and> (blk_timestamp transactionBlock = blk_timestamp latestL2Block \<longrightarrow>
              targetL2BlockNumber transactionBlock latestL2Block
                = Inr (blk_number latestL2Block))"
proof -
  have t: "targetL2BlockNumber transactionBlock latestL2Block =
           Inr (blk_number latestL2Block
                  - (blk_timestamp latestL2Block - blk_timestamp transactionBlock) div 12)"
    using assms(3-6) by (rule targetL2BlockNumber_exact)
  show ?thesis
    using assms(1,2) t by (simp add: lookupMintRate_def)
qed

theorem mint_rate_block_witness:
  "l1_getBlock exampleEnv (l1Chain (Num 1)) (tx_blockHash eventTransaction)
     = Inr \<lparr>blk_number = 18000000, blk_timestamp = 1700000000\<rparr>
   \<and> l2_getBlock exampleEnv (l2Chain (Num 1)) = Inr \<lparr>blk_number = 1000000, blk_timestamp = 1700000120\<rparr>
   \<and> (0::int) \<le> 1700000000 \<and> (1700000000::int) < 2 ^ 53
   \<and> (0::int) \<le> 1700000120 \<and> (1700000120::int) < 2 ^ 53
   \<and> targetL2BlockNumber \<lparr>blk_number = 18000000, blk_timestamp = 1700000000\<rparr>
        \<lparr>blk_number = 1000000, blk_timestamp = 1700000120\<rparr> = Inr 999990
   \<and> lookupMintRate exampleEnv (Num 1) eventTransaction = getFctMintRate exampleEnv (Num 1) (Some 999990)
   \<and> targetL2BlockNumber \<lparr>blk_number = 18000000, blk_timestamp = 1700000120\<rparr>
        \<lparr>blk_number = 1000000, blk_timestamp = 1700000120\<rparr> = Inr 1000000"
proof -
  have a: "l1_getBlock exampleEnv (l1Chain (Num 1)) (tx_blockHash eventTransaction)
     = Inr \<lparr>blk_number = 18000000, blk_timestamp = 1700000000\<rparr>"
    by (simp add: exampleEnv_def)
  have b: "l2_getBlock exampleEnv (l2Chain (Num 1)) = Inr \<lparr>blk_number = 1000000, blk_timestamp = 1700000120\<rparr>"
    by (simp add: exampleEnv_def)
  have a': "l1_getBlock (exampleEnv\<lparr>l1_getBlock := \<lambda>chain h. Inr \<lparr>blk_number = 18000000, blk_timestamp = 1700000120\<rparr>\<rparr>)
              (l1Chain (Num 1)) (tx_blockHash eventTransaction)
     = Inr \<lparr>blk_number = 18000000, blk_timestamp = 1700000120\<rparr>"
    by simp
  have b': "l2_getBlock (exampleEnv\<lparr>l1_getBlock := \<lambda>chain h. Inr \<lparr>blk_number = 18000000, blk_timestamp = 1700000120\<rparr>\<rparr>)
              (l2Chain (Num 1)) = Inr \<lparr>blk_number = 1000000, blk_timestamp = 1700000120\<rparr>"
    by (simp add: exampleEnv_def)
  have t1: "0 \<le> blk_timestamp \<lparr>blk_number = 18000000, blk_timestamp = 1700000000\<rparr>"
    "blk_timestamp \<lparr>blk_number = 18000000, blk_timestamp = 1700000000\<rparr> < 2 ^ 53"
    by simp_all
  have t2: "0 \<le> blk_timestamp \<lparr>blk_number = 1000000, blk_timestamp = 1700000120\<rparr>"
    "blk_timestamp \<lparr>blk_number = 1000000, blk_timestamp = 1700000120\<rparr> < 2 ^ 53"
    by simp_all
  have t3: "0 \<le> blk_timestamp \<lparr>blk_number = 18000000, blk_timestamp = 1700000120\<rparr>"
    "blk_timestamp \<lparr>blk_number = 18000000, blk_timestamp = 1700000120\<rparr> < 2 ^ 53"
    by simp_all
  show ?thesis
    using mint_rate_block [OF a b t1 t2] mint_rate_block [OF a' b' t3 t2] a b by simp
qed

theorem mint_rate_block_counterexample:
  "targetL2BlockNumber \<lparr>blk_number = 18000000, blk_timestamp = 9007199254740981\<rparr>
        \<lparr>blk_number = 1000000, blk_timestamp = 9007199254740993\<rparr> = Inr 1000000
   \<and> (1000000::int) - (9007199254740993 - 9007199254740981) div 12 = 999999
   \<and> (9007199254740981::int) = 2 ^ 53 - 11 \<and> (9007199254740993::int) = 2 ^ 53 + 1
   \<and> NumberOfBigInt 9007199254740993 = Num 9007199254740992"
proof -
  have n2: "NumberOfBigInt 9007199254740993 = Num 9007199254740992"
    by (simp add: double_defs)
  have n1: "NumberOfBigInt 9007199254740981 = Num 9007199254740981"
    by (simp add: double_defs)
  have d: "roundToDouble 11 = Num 11"
    using roundToDouble_int [of 11] by simp
  obtain z where z: "roundToDouble (11 / 12) = Num z" "\<lfloor>z\<rfloor> = 0"
    using roundToDouble_div12 [of 11] by auto
  have "targetL2BlockNumber \<lparr>blk_number = 18000000, blk_timestamp = 9007199254740981\<rparr>
        \<lparr>blk_number = 1000000, blk_timestamp = 9007199254740993\<rparr> = Inr 1000000"
    by (simp add: targetL2BlockNumber_def n1 n2 d z L2_BLOCK_TIME_def)
  with n2 show ?thesis by simp
qed



text \<open>
  Claim C6. Once the source transaction is found and the mint rate read, the handler takes
  the direct path if and only if the transaction has a recipient that equals the inbox
  address up to the case of letters; with any other recipient, or none, it takes the event
  path. The earlier variant classifies in the same way.
\<close>

theorem classifier_direct_iff_inbox:
  assumes "validate env request = Next (h, c)"
    and "l1_getTransaction env (l1Chain c) h = Inr (Some transaction)"
    and "lookupMintRate env c transaction = Inr rate"
  shows "(isDirect transaction \<longleftrightarrow>
            (case tx_to transaction of
               None \<Rightarrow> False | Some r \<Rightarrow> equalIgnoringCase r FACET_INBOX_ADDRESS))
         \<and> (isDirect0 transaction \<longleftrightarrow> isDirect transaction)
         \<and> derive env request =
             (if (case tx_to transaction of
                    None \<Rightarrow> False | Some r \<Rightarrow> equalIgnoringCase r FACET_INBOX_ADDRESS)
              then (case directPath env c rate transaction of
                      Inl e \<Rightarrow> Throw e | Inr d \<Rightarrow> Next (h, d))
              else (case eventPath env c h rate of
                      Throw e \<Rightarrow> Throw e | Return r \<Rightarrow> Return r | Next d \<Rightarrow> Next (h, d)))"
  using derive_found [OF assms] isDirect_iff [of transaction] isDirect0_eq [of transaction]
  by simp

theorem classifier_direct_iff_inbox_witness:
  "validate exampleEnv (exampleRequest hashDirect) = Next (hashDirect, Num 1)
   \<and> l1_getTransaction exampleEnv (l1Chain (Num 1)) hashDirect = Inr (Some directTransaction)
   \<and> lookupMintRate exampleEnv (Num 1) directTransaction = Inr 1000
   \<and> isDirect directTransaction
   \<and> derive exampleEnv (exampleRequest hashDirect) =
       (case directPath exampleEnv (Num 1) 1000 directTransaction of
          Inl e \<Rightarrow> Throw e | Inr d \<Rightarrow> Next (hashDirect, d))
   \<and> validate exampleEnv (exampleRequest hashEvent) = Next (hashEvent, Num 1)
   \<and> l1_getTransaction exampleEnv (l1Chain (Num 1)) hashEvent = Inr (Some eventTransaction)
   \<and> lookupMintRate exampleEnv (Num 1) eventTransaction = Inr 1000
   \<and> \<not> isDirect eventTransaction
   \<and> derive exampleEnv (exampleRequest hashEvent) =
       (case eventPath exampleEnv (Num 1) hashEvent 1000 of
          Throw e \<Rightarrow> Throw e | Return r \<Rightarrow> Return r | Next d \<Rightarrow> Next (hashEvent, d))"
proof -
  have v1: "validate exampleEnv (exampleRequest hashDirect) = Next (hashDirect, Num 1)"
    by (simp add: validate_example) (simp add: hashDirect_def)
  have g1: "l1_getTransaction exampleEnv (l1Chain (Num 1)) hashDirect = Inr (Some directTransaction)"
    by (simp add: exampleEnv_def exampleTransaction_def)
  have r1: "lookupMintRate exampleEnv (Num 1) directTransaction = Inr 1000"
    by (rule lookup_example)
  have v2: "validate exampleEnv (exampleRequest hashEvent) = Next (hashEvent, Num 1)"
    by (simp add: validate_example) (simp add: hashEvent_def)
  have g2: "l1_getTransaction exampleEnv (l1Chain (Num 1)) hashEvent = Inr (Some eventTransaction)"
    by (simp add: exampleEnv_def exampleTransaction_def hashDirect_def hashEvent_def)
  have r2: "lookupMintRate exampleEnv (Num 1) eventTransaction = Inr 1000"
    by (rule lookup_example)
  have d1: "isDirect directTransaction"
    by (simp add: directTransaction_def isDirect_def toLowerCase_def lowerChar_def FACET_INBOX_ADDRESS_def)
  have d2: "\<not> isDirect eventTransaction"
    by (simp add: eventTransaction_def emitter_def isDirect_def toLowerCase_def lowerChar_def FACET_INBOX_ADDRESS_def)
  show ?thesis
    using classifier_direct_iff_inbox [OF v1 g1 r1] classifier_direct_iff_inbox [OF v2 g2 r2]
      v1 g1 r1 v2 g2 r2 d1 d2
    by simp
qed

text \<open>
  Claim C7. In every derivation that succeeds, the sender handed to
  \<^verbatim>\<open>computeFacetTransactionHash\<close> is, on the direct path, the sender of the L1 transaction as
  it is, and on the event path the result of \<^verbatim>\<open>applyL1ToL2Alias\<close> on the address of the
  matched log (in the concrete environment: that address plus the offset, modulo \<open>2^160\<close>).
  The direct path does not call the alias.
\<close>

theorem sender_of_derivation:
  assumes "validate env request = Next (h, c)"
    and "l1_getTransaction env (l1Chain c) h = Inr (Some transaction)"
    and "derive env request = Next (h', d)"
  shows "h' = h
         \<and> hashOf env h' d =
             computeFacetTransactionHash env h (fromAddress (txFields d))
               (orElse (to (txFields d)) (RHex ''0x'')) (orElse (val (txFields d)) 0)
               (orElse (dat (txFields d)) (RHex ''0x'')) (orElse (gasLimit (txFields d)) 0)
               (Some (fctMintAmount d))
         \<and> (if isDirect transaction then fromAddress (txFields d) = tx_from transaction
             else (\<exists>receipt facetEvent.
                     l1_getTransactionReceipt env (l1Chain c) h = Inr receipt
                     \<and> findFacetEvent receipt = Some facetEvent
                     \<and> applyL1ToL2Alias env (log_address facetEvent)
                         = Inr (fromAddress (txFields d))))"
proof -
  from assms obtain rate where r: "lookupMintRate env c transaction = Inr rate"
    by (auto simp: derive_def split: sum.splits)
  note found = derive_found [OF assms(1,2) r]
  show ?thesis
  proof (cases "isDirect transaction")
    case True
    with found assms(3) have "h' = h" and "directPath env c rate transaction = Inr d"
      by (auto split: sum.splits)
    with True show ?thesis
      by (simp add: hashOf_def directPath_sender)
  next
    case False
    with found assms(3) have "h' = h" and "eventPath env c h rate = Next d"
      by (auto split: outcome.splits)
    with False show ?thesis
      using eventPath_sender [of env c h rate d] by (simp add: hashOf_def)
  qed
qed

theorem sender_of_derivation_witness:
  "validate exampleEnv (exampleRequest hashDirect) = Next (hashDirect, Num 1)
   \<and> l1_getTransaction exampleEnv (l1Chain (Num 1)) hashDirect = Inr (Some directTransaction)
   \<and> isDirect directTransaction
   \<and> (\<exists>d. derive exampleEnv (exampleRequest hashDirect) = Next (hashDirect, d)
           \<and> fromAddress (txFields d) = tx_from directTransaction)
   \<and> validate exampleEnv (exampleRequest hashEvent) = Next (hashEvent, Num 1)
   \<and> l1_getTransaction exampleEnv (l1Chain (Num 1)) hashEvent = Inr (Some eventTransaction)
   \<and> \<not> isDirect eventTransaction
   \<and> (\<exists>d. derive exampleEnv (exampleRequest hashEvent) = Next (hashEvent, d)
           \<and> applyL1ToL2Alias exampleEnv emitter = Inr (fromAddress (txFields d))
           \<and> fromAddress (txFields d) = ''0xccccbbbbbbbbbbbbbbbbbbbbbbbbbbbbbbbbcccc'')"
proof -
  have v1: "validate exampleEnv (exampleRequest hashDirect) = Next (hashDirect, Num 1)"
    using hash_examples by (simp add: validate_example)
  have g1: "l1_getTransaction exampleEnv (l1Chain (Num 1)) hashDirect = Inr (Some directTransaction)"
    by (simp add: getTransaction_example exampleTransaction_values)
  have v2: "validate exampleEnv (exampleRequest hashEvent) = Next (hashEvent, Num 1)"
    using hash_examples by (simp add: validate_example)
  have g2: "l1_getTransaction exampleEnv (l1Chain (Num 1)) hashEvent = Inr (Some eventTransaction)"
    by (simp add: getTransaction_example exampleTransaction_values)
  have al: "applyL1ToL2Alias exampleEnv emitter = Inr ''0xccccbbbbbbbbbbbbbbbbbbbbbbbbbbbbbbbbcccc''"
    by (simp add: example_defs codec_defs)
  show ?thesis
    using sender_of_derivation [OF v1 g1 derive_direct_example]
      sender_of_derivation [OF v2 g2 derive_event_example]
      v1 g1 v2 g2 isDirect_examples derive_direct_example derive_event_example al
    by simp
qed

text \<open>
  Claim C8, as amended. Only the chain ids 1 and 11155111 are accepted: a request passes
  validation only with one of them; a request whose \<^verbatim>\<open>txHash\<close> or \<^verbatim>\<open>chainId\<close> parameter is
  missing, or whose \<^verbatim>\<open>chainId\<close> is any other number (or no number), is answered with status
  400; and a request that carries a transaction hash and \<^verbatim>\<open>chainId=5\<close> is answered with
  status 400 and the error \<^verbatim>\<open>Invalid chainId\<close>. (Without a transaction hash the error is
  \<^verbatim>\<open>Missing txHash or chainId\<close>, whatever the chain id: lines 20--22 come first.)
\<close>

theorem chainId_validation:
  "(\<forall>h c. validate env request = Next (h, c) \<longrightarrow> c = Num 1 \<or> c = Num 11155111)
   \<and> (req_txHash request = None \<or> req_chainId request = None
        \<or> (l1ChainIdOf env request \<noteq> Num 1 \<and> l1ChainIdOf env request \<noteq> Num 11155111)
       \<longrightarrow> status (fetch env request) = 400)
   \<and> (\<not> notString (req_txHash request) \<and> l1ChainIdOf env request = Num 5
       \<longrightarrow> fetch env request = \<lparr>status = 400, body = ErrorObject ''Invalid chainId''\<rparr>)"
  by (auto simp: validate_def fetch_def derive_def l1ChainIdOf_def notNumber_def notString_def
        Let_def split: option.splits if_splits)

theorem chainId_validation_witness:
  "fetch exampleEnv \<lparr>req_txHash = Some hashEvent, req_chainId = Some ''5''\<rparr>
     = \<lparr>status = 400, body = ErrorObject ''Invalid chainId''\<rparr>
   \<and> status (fetch exampleEnv \<lparr>req_txHash = Some hashEvent, req_chainId = None\<rparr>) = 400
   \<and> status (fetch exampleEnv \<lparr>req_txHash = None, req_chainId = Some ''1''\<rparr>) = 400
   \<and> validate exampleEnv (exampleRequest hashEvent) = Next (hashEvent, Num 1)"
  using chainId_validation [of exampleEnv "\<lparr>req_txHash = Some hashEvent, req_chainId = Some ''5''\<rparr>"]
    chainId_validation [of exampleEnv "\<lparr>req_txHash = Some hashEvent, req_chainId = None\<rparr>"]
    chainId_validation [of exampleEnv "\<lparr>req_txHash = None, req_chainId = Some ''1''\<rparr>"]
    chainId_validation [of exampleEnv "exampleRequest hashEvent"]
  by (simp add: example_defs validate_def l1ChainIdOf_def notNumber_def notString_def)

theorem chainId_validation_counterexample:
  "l1ChainIdOf exampleEnv \<lparr>req_txHash = None, req_chainId = Some ''5''\<rparr> = Num 5
   \<and> fetch exampleEnv \<lparr>req_txHash = None, req_chainId = Some ''5''\<rparr>
       = \<lparr>status = 400, body = ErrorObject ''Missing txHash or chainId''\<rparr>
   \<and> ErrorObject ''Missing txHash or chainId'' \<noteq> ErrorObject ''Invalid chainId''"
  by (simp add: example_defs fetch_def derive_def validate_def l1ChainIdOf_def notNumber_def
      notString_def)

text \<open>
  Claim C9. On the event path the two variants of the handler select the same log and read
  the same sender, \<^verbatim>\<open>to\<close>, \<^verbatim>\<open>value\<close>, \<^verbatim>\<open>gasLimit\<close> and \<^verbatim>\<open>data\<close> off it, failing and answering
  alike: the event path of the earlier variant is that of \<^verbatim>\<open>index.ts\<close> with the mint amount
  dropped, and so is its whole derivation once \<^verbatim>\<open>index.ts\<close> has read a mint rate.
\<close>

theorem event_variants_agree:
  "findFacetEvent0 receipt = findFacetEvent receipt
   \<and> eventFields0 env facetEvent = eventFields env facetEvent
   \<and> eventPath0 env c h = map_outcome txFields (eventPath env c h rate)
   \<and> (validate env request = Next (h, c)
        \<and> l1_getTransaction env (l1Chain c) h = Inr (Some transaction)
        \<and> \<not> isDirect transaction
        \<and> lookupMintRate env c transaction = Inr rate
       \<longrightarrow> derive0 env request = map_outcome (\<lambda>(h, d). (h, c, txFields d)) (derive env request))"
proof -
  have "derive0 env request = map_outcome (\<lambda>(h, d). (h, c, txFields d)) (derive env request)"
    if a: "validate env request = Next (h, c)"
      and b: "l1_getTransaction env (l1Chain c) h = Inr (Some transaction)"
      and n: "\<not> isDirect transaction"
      and r: "lookupMintRate env c transaction = Inr rate"
    using derive_found [OF a b r] derive0_found [OF a b] n eventPath0_eq [of env c h rate]
    by (simp split: outcome.splits)
  then show ?thesis
    using findFacetEvent0_eq eventFields0_eq eventPath0_eq by blast
qed

theorem event_variants_agree_witness:
  "validate exampleEnv (exampleRequest hashEvent) = Next (hashEvent, Num 1)
   \<and> l1_getTransaction exampleEnv (l1Chain (Num 1)) hashEvent = Inr (Some eventTransaction)
   \<and> \<not> isDirect eventTransaction
   \<and> lookupMintRate exampleEnv (Num 1) eventTransaction = Inr 1000
   \<and> derive0 exampleEnv (exampleRequest hashEvent) =
       Next (hashEvent, Num 1,
         \<lparr>fromAddress = ''0xccccbbbbbbbbbbbbbbbbbbbbbbbbbbbbbbbbcccc'', to = None,
          val = Some 0, dat = Some (RHex ''0xabcdef''), gasLimit = Some 21000\<rparr>)"
proof -
  have v: "validate exampleEnv (exampleRequest hashEvent) = Next (hashEvent, Num 1)"
    using hash_examples by (simp add: validate_example)
  have g: "l1_getTransaction exampleEnv (l1Chain (Num 1)) hashEvent = Inr (Some eventTransaction)"
    by (simp add: getTransaction_example exampleTransaction_values)
  have n: "\<not> isDirect eventTransaction" using isDirect_examples by simp
  show ?thesis
    using event_variants_agree [where env = exampleEnv and c = "Num 1" and h = hashEvent
        and rate = 1000 and request = "exampleRequest hashEvent" and transaction = eventTransaction]
      v g n lookup_example derive_event_example
    by simp
qed

text \<open>
  Claim C10. For a source transaction with no recipient the comparison of line 83 (line 51 of
  the earlier variant) is false, not an error, and both handlers continue on the event path.
\<close>

theorem absent_recipient_event_path:
  assumes "tx_to transaction = None"
    and "validate env request = Next (h, c)"
    and "l1_getTransaction env (l1Chain c) h = Inr (Some transaction)"
    and "lookupMintRate env c transaction = Inr rate"
  shows "\<not> isDirect transaction \<and> \<not> isDirect0 transaction
         \<and> derive env request =
             (case eventPath env c h rate of
                Throw e \<Rightarrow> Throw e | Return r \<Rightarrow> Return r | Next d \<Rightarrow> Next (h, d))
         \<and> derive0 env request =
             (case eventPath0 env c h of
                Throw e \<Rightarrow> Throw e | Return r \<Rightarrow> Return r | Next fs \<Rightarrow> Next (h, c, fs))"
proof -
  have nd: "\<not> isDirect transaction"
    using assms(1) by (simp add: isDirect_def)
  show ?thesis
    using nd derive_found [OF assms(2-4)] derive0_found [OF assms(2,3)]
    by (simp add: isDirect0_eq)
qed

theorem absent_recipient_event_path_witness:
  "tx_to creationTransaction = None
   \<and> validate exampleEnv (exampleRequest hashCreation) = Next (hashCreation, Num 1)
   \<and> l1_getTransaction exampleEnv (l1Chain (Num 1)) hashCreation = Inr (Some creationTransaction)
   \<and> lookupMintRate exampleEnv (Num 1) creationTransaction = Inr 1000
   \<and> \<not> isDirect creationTransaction
   \<and> derive exampleEnv (exampleRequest hashCreation) =
       Return \<lparr>status = 400, body = ErrorObject ''No Facet event found in transaction''\<rparr>
   \<and> derive0 exampleEnv (exampleRequest hashCreation) =
       Return \<lparr>status = 400, body = ErrorObject ''No Facet event found in transaction''\<rparr>"
proof -
  have t: "tx_to creationTransaction = None"
    by (simp add: creationTransaction_def)
  have v: "validate exampleEnv (exampleRequest hashCreation) = Next (hashCreation, Num 1)"
    by (simp add: validate_example) (simp add: hashCreation_def)
  have g: "l1_getTransaction exampleEnv (l1Chain (Num 1)) hashCreation = Inr (Some creationTransaction)"
    by (simp add: exampleEnv_def exampleTransaction_def hashDirect_def hashEvent_def
        hashShortList_def hashOneByteTo_def hashCreation_def)
  have r: "lookupMintRate exampleEnv (Num 1) creationTransaction = Inr 1000"
    by (rule lookup_example)
  have e: "eventPath exampleEnv (Num 1) hashCreation 1000 =
             Return \<lparr>status = 400, body = ErrorObject ''No Facet event found in transaction''\<rparr>"
    by (simp add: example_defs eventPath_def findFacetEvent_def FACET_EVENT_SIGNATURE_def l1Chain_def)
  have e0: "eventPath0 exampleEnv (Num 1) hashCreation =
             Return \<lparr>status = 400, body = ErrorObject ''No Facet event found in transaction''\<rparr>"
    by (simp add: eventPath0_eq [of _ _ _ 1000] e)
  show ?thesis
    using absent_recipient_event_path [OF t v g r] t v g r e e0 by simp
qed

end
